theory Spec2Isabelle
  imports Main "HOL-Library.Word" "HOL-Library.Sublist"
begin

section \<open>Data model (config.ts, utils.ts)\<close>

text \<open>
  A field typed \<open>T | null\<close> and declared optional has three shapes in the program:
  missing (\<open>undefined\<close>), \<open>null\<close>, or a value.
\<close>

datatype 'a nullable = Undefined | Null | Value 'a

text \<open>
  \<open>interface WikiConfig\<close>. The field \<open>private\<close> is named \<open>privateWiki\<close>, the name
  \<open>withAuth\<close> binds it to. Optional fields without \<open>null\<close> in their type are options.
\<close>

record WikiConfig =
  sitename :: string
  server :: string
  articlepath :: string
  scriptpath :: string
  restpath :: "string option"
  token :: "string nullable"
  username :: "string nullable"
  password :: "string nullable"
  privateWiki :: "bool option"

text \<open>Values of type \<open>unknown\<close> that a JSON-like body can hold.\<close>

datatype jsvalue =
    JUndefined
  | JNull
  | JBool bool
  | JNumber int
  | JString string
  | JArray "jsvalue list"
  | JObject "(string \<times> jsvalue) list"

text \<open>A thrown \<open>Error\<close> with its message.\<close>

datatype error = Error string

text \<open>
  \<open>type RequestConfig\<close>: the two objects are held by reference, as in the program.
\<close>

type_synonym ref = nat

record RequestConfig =
  headers :: ref
  body :: "ref option"

text \<open>What is handed to the transport: \<open>fetch(url, fetchOptions)\<close>.\<close>

record request =
  req_url :: string
  req_headers :: "string \<rightharpoonup> string"
  req_method :: string
  req_body :: "string option"

text \<open>
  The \<open>Response\<close> of the transport. \<open>resp_text\<close>, \<open>resp_json\<close> and
  \<open>resp_arrayBuffer\<close> are the outcomes of awaiting \<open>text()\<close>, \<open>json()\<close> and
  \<open>arrayBuffer()\<close>, each of which may reject.
\<close>

record Response =
  status :: nat
  url :: string
  resp_text :: "error + string"
  resp_json :: "error + jsvalue"
  resp_arrayBuffer :: "error + 8 word list"

text \<open>The getter \<open>ok\<close> of the transport's response: the status is in 200..299.\<close>

definition ok :: "Response \<Rightarrow> bool" where
  "ok r = (200 \<le> status r \<and> status r < 300)"

text \<open>
  The session client returned by \<open>getMwn()\<close>: its cookie jar, if it has one, seen
  through \<open>getCookieStringSync\<close>, and the outcome of awaiting \<open>getCsrfToken()\<close>.
\<close>

record Mwn =
  cookieJar :: "(string \<Rightarrow> string) option"
  mwn_getCsrfToken :: "error + string"

text \<open>
  The collaborators that utils.ts imports or finds in the runtime, as they answer during
  one call: the active wiki's configuration (\<open>wikiService.getCurrent().config\<close>), the
  outcome of awaiting \<open>getMwn()\<close>, the constant \<open>USER_AGENT\<close>, the transport \<open>fetch\<close>,
  and the built-ins \<open>new URLSearchParams(p).toString()\<close> and \<open>JSON.stringify\<close> (which
  throws on values it cannot serialise).
\<close>

record env =
  current :: WikiConfig
  getMwn :: "error + Mwn"
  USER_AGENT :: string
  fetch :: "request \<Rightarrow> error + Response"
  URLSearchParams_toString :: "(string \<rightharpoonup> string) \<Rightarrow> string"
  JSON_stringify :: "(string \<rightharpoonup> jsvalue) \<Rightarrow> error + string"

text \<open>Calls that leave the module, in the order they are made.\<close>

datatype event =
    EvGetMwn
  | EvGetCookieString string
  | EvGetCsrfToken
  | EvFetch request

text \<open>
  The store: header objects (\<open>Record<string, string>\<close>) and body objects
  (\<open>Record<string, unknown>\<close>) by reference, the next unused reference, and the log of
  outside calls. A reference below \<open>nextRef\<close> is one that some holder may have.
\<close>

record world =
  headerObjs :: "ref \<Rightarrow> (string \<rightharpoonup> string)"
  bodyObjs :: "ref \<Rightarrow> (string \<rightharpoonup> jsvalue)"
  nextRef :: ref
  events :: "event list"

definition emit :: "event \<Rightarrow> world \<Rightarrow> world" where
  "emit ev w = w\<lparr>events := events w @ [ev]\<rparr>"

text \<open>An object literal allocates a new object.\<close>

definition newHeaders :: "(string \<rightharpoonup> string) \<Rightarrow> world \<Rightarrow> ref \<times> world" where
  "newHeaders obj w =
     (nextRef w, w\<lparr>headerObjs := (headerObjs w)(nextRef w := obj), nextRef := Suc (nextRef w)\<rparr>)"

definition newBody :: "(string \<rightharpoonup> jsvalue) \<Rightarrow> world \<Rightarrow> ref \<times> world" where
  "newBody obj w =
     (nextRef w, w\<lparr>bodyObjs := (bodyObjs w)(nextRef w := obj), nextRef := Suc (nextRef w)\<rparr>)"

section \<open>Session material and REST base (utils.ts)\<close>

text \<open>
  \<open>restpath ? `${server}${restpath}` : `${server}${scriptpath}/rest.php`\<close>: a missing
  and an empty \<open>restpath\<close> are both falsy.
\<close>

definition getRestApiBase :: "env \<Rightarrow> string" where
  "getRestApiBase e =
     (let cfg = current e in
      case restpath cfg of
        None \<Rightarrow> server cfg @ scriptpath cfg @ ''/rest.php''
      | Some rp \<Rightarrow>
          if rp \<noteq> [] then server cfg @ rp
          else server cfg @ scriptpath cfg @ ''/rest.php'')"

definition getCsrfToken :: "env \<Rightarrow> world \<Rightarrow> world \<times> (error + string)" where
  "getCsrfToken e w =
     (let w1 = emit EvGetMwn w in
      case getMwn e of
        Inl err \<Rightarrow> (w1, Inl err)
      | Inr mwn \<Rightarrow> (emit EvGetCsrfToken w1, mwn_getCsrfToken mwn))"

definition getCookiesFromJar :: "env \<Rightarrow> world \<Rightarrow> world \<times> (error + string option)" where
  "getCookiesFromJar e w =
     (let w1 = emit EvGetMwn w in
      case getMwn e of
        Inl err \<Rightarrow> (w1, Inl err)
      | Inr mwn \<Rightarrow>
          (case cookieJar mwn of
             None \<Rightarrow> (w1, Inr None)
           | Some jar \<Rightarrow>
               (let cfg = current e;
                    restApiUrl =
                      (case restpath cfg of
                         None \<Rightarrow> server cfg @ scriptpath cfg @ ''/rest.php''
                       | Some rp \<Rightarrow>
                           if rp \<noteq> [] then server cfg @ rp
                           else server cfg @ scriptpath cfg @ ''/rest.php'');
                    w2 = emit (EvGetCookieString restApiUrl) w1;
                    cookies = jar restApiUrl
                in if cookies \<noteq> [] then (w2, Inr (Some cookies))
                   else
                     (let w3 = emit (EvGetCookieString (server cfg)) w2;
                          fallback = jar (server cfg)
                      in (w3, Inr (if fallback \<noteq> [] then Some fallback else None))))))"

section \<open>Credential resolver (utils.ts, withAuth)\<close>

definition withAuth ::
  "env \<Rightarrow> world \<Rightarrow> ref \<Rightarrow> ref option \<Rightarrow> bool \<Rightarrow> world \<times> (error + RequestConfig)" where
  "withAuth e w hdrs bdy needAuth =
     (let cfg = current e in
      if \<not> needAuth \<and> privateWiki cfg \<noteq> Some True
      then (w, Inr \<lparr>headers = hdrs, body = bdy\<rparr>)
      else
        (case token cfg of
           Value t \<Rightarrow>
             (let (hr, w1) =
                    newHeaders ((headerObjs w hdrs)(''Authorization'' \<mapsto> ''Bearer '' @ t)) w
              in (w1, Inr \<lparr>headers = hr, body = bdy\<rparr>))
         | _ \<Rightarrow>
             (case getCookiesFromJar e w of
                (w1, Inl err) \<Rightarrow> (w1, Inl err)
              | (w1, Inr None) \<Rightarrow> (w1, Inr \<lparr>headers = hdrs, body = bdy\<rparr>)
              | (w1, Inr (Some cookies)) \<Rightarrow>
                  (let (hr, w2) = newHeaders ((headerObjs w1 hdrs)(''Cookie'' \<mapsto> cookies)) w1
                   in case bdy of
                        None \<Rightarrow> (w2, Inr \<lparr>headers = hr, body = None\<rparr>)
                      | Some b \<Rightarrow>
                          (let copied = bodyObjs w2 b
                           in case getCsrfToken e w2 of
                                (w3, Inl err) \<Rightarrow> (w3, Inl err)
                              | (w3, Inr tok) \<Rightarrow>
                                  (let (br, w4) = newBody (copied(''token'' \<mapsto> JString tok)) w3
                                   in (w4, Inr \<lparr>headers = hr, body = Some br\<rparr>)))))))"

section \<open>Request builder (utils.ts, fetchCore)\<close>

text \<open>The decimal numeral a template literal prints for a non-negative integer.\<close>

definition digit_char :: "nat \<Rightarrow> char" where
  "digit_char d = ''0123456789'' ! (d mod 10)"

function string_of_nat :: "nat \<Rightarrow> string" where
  "string_of_nat n =
     (if n < 10 then [digit_char n] else string_of_nat (n div 10) @ [digit_char (n mod 10)])"
  by pat_completeness auto
termination
  by (relation "measure (\<lambda>n. n)") auto

declare string_of_nat.simps [simp del]

text \<open>The optional \<open>options\<close> argument of \<open>fetchCore\<close>; each field may be missing.\<close>

record options =
  opt_params :: "(string \<rightharpoonup> string) option"
  opt_headers :: "ref option"
  opt_body :: "ref option"
  opt_method :: "string option"

text \<open>\<open>options?.field\<close>: missing when \<open>options\<close> is.\<close>

definition optional_chain :: "'a option \<Rightarrow> ('a \<Rightarrow> 'b option) \<Rightarrow> 'b option" where
  "optional_chain opts field = (case opts of None \<Rightarrow> None | Some o' \<Rightarrow> field o')"

text \<open>
  \<open>fetchCore\<close>. The local \<open>requestHeaders\<close> object starts as
  \<open>{ 'User-Agent': USER_AGENT }\<close> and \<open>Object.assign\<close> copies the caller's entries over
  it; the request handed to the transport records its entries.
\<close>

definition fetchCore ::
  "env \<Rightarrow> world \<Rightarrow> string \<Rightarrow> options option \<Rightarrow> world \<times> (error + Response)" where
  "fetchCore e w baseUrl opts =
     (let url0 = (if prefix ''//'' baseUrl then ''https:'' @ baseUrl else baseUrl);
          url1 =
            (case optional_chain opts opt_params of
               None \<Rightarrow> url0
             | Some params \<Rightarrow>
                 (let queryString = URLSearchParams_toString e params
                  in if queryString \<noteq> [] then url0 @ ''?'' @ queryString else url0));
          requestHeaders0 = [''User-Agent'' \<mapsto> USER_AGENT e];
          requestHeaders =
            (case optional_chain opts opt_headers of
               None \<Rightarrow> requestHeaders0
             | Some h \<Rightarrow> requestHeaders0 ++ headerObjs w h);
          method =
            (case optional_chain opts opt_method of
               None \<Rightarrow> ''GET''
             | Some m \<Rightarrow> if m \<noteq> [] then m else ''GET'');
          serialised =
            (case optional_chain opts opt_body of
               None \<Rightarrow> Inr None
             | Some b \<Rightarrow>
                 (case JSON_stringify e (bodyObjs w b) of
                    Inl err \<Rightarrow> Inl err
                  | Inr s \<Rightarrow> Inr (Some s)))
      in case serialised of
           Inl err \<Rightarrow> (w, Inl err)
         | Inr sent_body \<Rightarrow>
             (let req = \<lparr>req_url = url1, req_headers = requestHeaders,
                         req_method = method, req_body = sent_body\<rparr>;
                  w1 = emit (EvFetch req) w
              in case fetch e req of
                   Inl err \<Rightarrow> (w1, Inl err)
                 | Inr response \<Rightarrow>
                     if \<not> ok response then
                       (let errorBody =
                              (case resp_text response of
                                 Inl _ \<Rightarrow> ''Could not read error response body''
                               | Inr t \<Rightarrow> t)
                        in (w1, Inl (Error (''HTTP error! status: ''
                                            @ string_of_nat (status response)
                                            @ '' for URL: '' @ url response
                                            @ ''. Response: '' @ errorBody))))
                     else (w1, Inr response)))"

section \<open>Typed request facade (utils.ts)\<close>

definition makeApiRequest ::
  "env \<Rightarrow> world \<Rightarrow> string \<Rightarrow> (string \<rightharpoonup> string) option \<Rightarrow> world \<times> (error + jsvalue)" where
  "makeApiRequest e w u params =
     (let (h, w0) = newHeaders [''Accept'' \<mapsto> ''application/json''] w
      in case fetchCore e w0 u
                (Some \<lparr>opt_params = params, opt_headers = Some h,
                       opt_body = None, opt_method = None\<rparr>) of
           (w1, Inl err) \<Rightarrow> (w1, Inl err)
         | (w1, Inr response) \<Rightarrow> (w1, resp_json response))"

definition makeRestGetRequest ::
  "env \<Rightarrow> world \<Rightarrow> string \<Rightarrow> (string \<rightharpoonup> string) option \<Rightarrow> bool
     \<Rightarrow> world \<times> (error + jsvalue)" where
  "makeRestGetRequest e w path params needAuth =
     (let (h, w0) = newHeaders [''Accept'' \<mapsto> ''application/json''] w
      in case withAuth e w0 h None needAuth of
           (w1, Inl err) \<Rightarrow> (w1, Inl err)
         | (w1, Inr rc) \<Rightarrow>
             (case fetchCore e w1 (getRestApiBase e @ path)
                     (Some \<lparr>opt_params = params, opt_headers = Some (headers rc),
                            opt_body = None, opt_method = None\<rparr>) of
                (w2, Inl err) \<Rightarrow> (w2, Inl err)
              | (w2, Inr response) \<Rightarrow> (w2, resp_json response)))"

definition makeRestPutRequest ::
  "env \<Rightarrow> world \<Rightarrow> string \<Rightarrow> ref \<Rightarrow> bool \<Rightarrow> world \<times> (error + jsvalue)" where
  "makeRestPutRequest e w path bdy needAuth =
     (let (h, w0) = newHeaders [''Accept'' \<mapsto> ''application/json'',
                                ''Content-Type'' \<mapsto> ''application/json''] w
      in case withAuth e w0 h (Some bdy) needAuth of
           (w1, Inl err) \<Rightarrow> (w1, Inl err)
         | (w1, Inr rc) \<Rightarrow>
             (case fetchCore e w1 (getRestApiBase e @ path)
                     (Some \<lparr>opt_params = None, opt_headers = Some (headers rc),
                            opt_body = body rc, opt_method = Some ''PUT''\<rparr>) of
                (w2, Inl err) \<Rightarrow> (w2, Inl err)
              | (w2, Inr response) \<Rightarrow> (w2, resp_json response)))"

definition makeRestPostRequest ::
  "env \<Rightarrow> world \<Rightarrow> string \<Rightarrow> ref option \<Rightarrow> bool \<Rightarrow> world \<times> (error + jsvalue)" where
  "makeRestPostRequest e w path bdy needAuth =
     (let (h, w0) = newHeaders [''Accept'' \<mapsto> ''application/json'',
                                ''Content-Type'' \<mapsto> ''application/json''] w
      in case withAuth e w0 h bdy needAuth of
           (w1, Inl err) \<Rightarrow> (w1, Inl err)
         | (w1, Inr rc) \<Rightarrow>
             (case fetchCore e w1 (getRestApiBase e @ path)
                     (Some \<lparr>opt_params = None, opt_headers = Some (headers rc),
                            opt_body = body rc, opt_method = Some ''POST''\<rparr>) of
                (w2, Inl err) \<Rightarrow> (w2, Inl err)
              | (w2, Inr response) \<Rightarrow> (w2, resp_json response)))"

text \<open>
  \<open>Buffer.from(bytes).toString('base64')\<close>: the standard alphabet, three bytes to four
  characters, padded with \<open>=\<close>.
\<close>

definition base64_char :: "nat \<Rightarrow> char" where
  "base64_char i =
     ''ABCDEFGHIJKLMNOPQRSTUVWXYZabcdefghijklmnopqrstuvwxyz0123456789+/'' ! (i mod 64)"

fun base64 :: "8 word list \<Rightarrow> string" where
  "base64 [] = []"
| "base64 [a] =
     (let n = unat a * 65536
      in [base64_char (n div 262144), base64_char (n div 4096), CHR ''='', CHR ''=''])"
| "base64 [a, b] =
     (let n = unat a * 65536 + unat b * 256
      in [base64_char (n div 262144), base64_char (n div 4096),
          base64_char (n div 64), CHR ''=''])"
| "base64 (a # b # c # rest) =
     (let n = unat a * 65536 + unat b * 256 + unat c
      in [base64_char (n div 262144), base64_char (n div 4096),
          base64_char (n div 64), base64_char n] @ base64 rest)"

text \<open>
  The two best-effort helpers: \<open>try { ... } catch { return null }\<close>. The result is the
  string, or \<open>None\<close> for \<open>null\<close>; the type has no way to carry an error out.
\<close>

definition fetchPageHtml :: "env \<Rightarrow> world \<Rightarrow> string \<Rightarrow> world \<times> string option" where
  "fetchPageHtml e w u =
     (case fetchCore e w u None of
        (w1, Inl err) \<Rightarrow> (w1, None)
      | (w1, Inr response) \<Rightarrow>
          (case resp_text response of
             Inl err \<Rightarrow> (w1, None)
           | Inr t \<Rightarrow> (w1, Some t)))"

definition fetchImageAsBase64 :: "env \<Rightarrow> world \<Rightarrow> string \<Rightarrow> world \<times> string option" where
  "fetchImageAsBase64 e w u =
     (case fetchCore e w u None of
        (w1, Inl err) \<Rightarrow> (w1, None)
      | (w1, Inr response) \<Rightarrow>
          (case resp_arrayBuffer response of
             Inl err \<Rightarrow> (w1, None)
           | Inr arrayBuffer \<Rightarrow> (w1, Some (base64 arrayBuffer))))"

section \<open>Observations and the specification's mode selection\<close>

text \<open>
  The outside calls made between two states of the world.
\<close>

definition emitted :: "world \<Rightarrow> world \<Rightarrow> event list" where
  "emitted w w' = drop (length (events w)) (events w')"

text \<open>
  A list of outside calls that hands nothing to the transport.
\<close>

definition no_fetch :: "event list \<Rightarrow> bool" where
  "no_fetch evs = (\<forall>ev \<in> set evs. case ev of EvFetch req \<Rightarrow> False | _ \<Rightarrow> True)"

text \<open>
  Every request handed to the transport in a list of outside calls carries
  \<open>User-Agent\<close> set to the constant \<open>USER_AGENT\<close>.
\<close>

definition user_agent_sent :: "env \<Rightarrow> event list \<Rightarrow> bool" where
  "user_agent_sent e evs =
     list_all (\<lambda>ev. case ev of
                      EvFetch req \<Rightarrow> req_headers req ''User-Agent'' = Some (USER_AGENT e)
                    | _ \<Rightarrow> True) evs"

text \<open>
  The value of one header in a request handed to the transport.
\<close>

definition sent_header :: "string \<Rightarrow> event \<Rightarrow> string option" where
  "sent_header k ev = (case ev of EvFetch req \<Rightarrow> req_headers req k | _ \<Rightarrow> None)"

text \<open>
  The three authentication modes of the specification, and the mode its policy assigns
  to the triple \<open>(needAuth, private, token)\<close>: anonymous when authentication is
  neither requested nor imposed by a private wiki; otherwise bearer token when the
  configuration has a token; otherwise cookie session with CSRF token.
\<close>

datatype authMode = NoAuth | BearerToken | CookieCsrf

definition selectMode :: "bool \<Rightarrow> bool option \<Rightarrow> string nullable \<Rightarrow> authMode" where
  "selectMode needAuth priv tok =
     (if \<not> needAuth \<and> priv \<noteq> Some True then NoAuth
      else (case tok of Value t \<Rightarrow> BearerToken | _ \<Rightarrow> CookieCsrf))"

text \<open>
  What each mode looks like from outside a call of \<open>withAuth\<close>. Anonymous: no
  outside call, no new object, the caller's two references returned. Bearer: no outside
  call, exactly one new object, returned as the headers and holding a \<open>Bearer\<close>
  authorization, the caller's body reference returned. Cookie session: the session client
  is asked for, first of all.
\<close>

definition noAuthOutcome ::
  "world \<Rightarrow> ref \<Rightarrow> ref option \<Rightarrow> world \<times> (error + RequestConfig) \<Rightarrow> bool" where
  "noAuthOutcome w hdrs bdy out =
     (emitted w (fst out) = [] \<and> nextRef (fst out) = nextRef w
      \<and> snd out = Inr \<lparr>headers = hdrs, body = bdy\<rparr>)"

definition bearerOutcome ::
  "world \<Rightarrow> ref \<Rightarrow> ref option \<Rightarrow> world \<times> (error + RequestConfig) \<Rightarrow> bool" where
  "bearerOutcome w hdrs bdy out =
     (emitted w (fst out) = [] \<and> nextRef (fst out) = Suc (nextRef w)
      \<and> (case snd out of
            Inl err \<Rightarrow> False
          | Inr rc \<Rightarrow>
              headers rc = nextRef w \<and> body rc = bdy
              \<and> (case headerObjs (fst out) (headers rc) ''Authorization'' of
                    None \<Rightarrow> False
                  | Some v \<Rightarrow> prefix ''Bearer '' v)))"

definition cookieOutcome :: "world \<Rightarrow> world \<times> (error + RequestConfig) \<Rightarrow> bool" where
  "cookieOutcome w out =
     (case emitted w (fst out) of [] \<Rightarrow> False | ev # evs \<Rightarrow> ev = EvGetMwn)"

section \<open>Configurations and collaborators used as examples\<close>

text \<open>
  The entry \<open>en.wikipedia.org\<close> of \<open>defaultConfig\<close> in config.ts; its
  \<open>username\<close> and \<open>password\<close> are not given there.
\<close>

definition enwiki :: WikiConfig where
  "enwiki = \<lparr>sitename = ''Wikipedia'', server = ''https://en.wikipedia.org'',
     articlepath = ''/wiki'', scriptpath = ''/w'', restpath = None, token = Null,
     username = Undefined, password = Undefined, privateWiki = Some False\<rparr>"

text \<open>
  Collaborators: a serialiser that shows only the \<open>token\<close> field of a body, an
  environment around a configuration, a session client that cannot be
  obtained, one that is logged in with a given cookie jar, cookie jars that hold a cookie
  for a single URL, and transports that fail, answer 404 after a redirect, answer 500 with
  an unreadable body, or answer 200.
\<close>

definition example_stringify :: "(string \<rightharpoonup> jsvalue) \<Rightarrow> error + string" where
  "example_stringify obj =
     Inr (case obj ''token'' of
            Some (JString t) \<Rightarrow> ''{token:'' @ t @ ''}''
          | _ \<Rightarrow> ''{}'')"

definition example_env :: "WikiConfig \<Rightarrow> error + Mwn \<Rightarrow> (request \<Rightarrow> error + Response) \<Rightarrow> env" where
  "example_env cfg m f = \<lparr>current = cfg, getMwn = m, USER_AGENT = ''mediawiki-mcp-server'',
     fetch = f, URLSearchParams_toString = (\<lambda>_. []), JSON_stringify = example_stringify\<rparr>"

definition no_session :: "error + Mwn" where
  "no_session = Inl (Error ''not logged in'')"

definition logged_in :: "(string \<Rightarrow> string) \<Rightarrow> error + Mwn" where
  "logged_in jar = Inr \<lparr>cookieJar = Some jar, mwn_getCsrfToken = Inr ''csrf-42''\<rparr>"

definition jar_rest_only :: "string \<Rightarrow> string" where
  "jar_rest_only u = (if u = ''https://en.wikipedia.org/w/rest.php'' then ''session=1'' else [])"

definition jar_origin_only :: "string \<Rightarrow> string" where
  "jar_origin_only u = (if u = ''https://en.wikipedia.org'' then ''session=2'' else [])"

definition offline :: "request \<Rightarrow> error + Response" where
  "offline req = Inl (Error ''network unreachable'')"

definition redirected_404 :: "request \<Rightarrow> error + Response" where
  "redirected_404 req =
     Inr \<lparr>status = 404, url = ''https://b.example/moved'', resp_text = Inr ''Not Found'',
          resp_json = Inl (Error ''Unexpected token N in JSON''), resp_arrayBuffer = Inr []\<rparr>"

definition unreadable_500 :: "request \<Rightarrow> error + Response" where
  "unreadable_500 req =
     Inr \<lparr>status = 500, url = req_url req, resp_text = Inl (Error ''socket hang up''),
          resp_json = Inl (Error ''socket hang up''), resp_arrayBuffer = Inl (Error ''socket hang up'')\<rparr>"

definition ok_page :: "request \<Rightarrow> error + Response" where
  "ok_page req =
     Inr \<lparr>status = 200, url = req_url req, resp_text = Inr ''<p>Hi</p>'',
          resp_json = Inl (Error ''Unexpected token < in JSON''),
          resp_arrayBuffer = Inr [77, 97, 110]\<rparr>"

text \<open>
  Worlds: one where the caller holds a headers object at reference 0 and a body object at
  reference 1, and one where the caller's headers object names its own user agent.
\<close>

definition example_world :: world where
  "example_world = \<lparr>headerObjs = (\<lambda>r. if r = 0 then [''Accept'' \<mapsto> ''application/json''] else Map.empty),
     bodyObjs = (\<lambda>r. if r = 1 then [''source'' \<mapsto> JString ''text''] else Map.empty),
     nextRef = 2, events = []\<rparr>"

definition spoofing_world :: world where
  "spoofing_world = \<lparr>headerObjs = (\<lambda>r. if r = 0 then [''User-Agent'' \<mapsto> ''curl/8.0''] else Map.empty),
     bodyObjs = (\<lambda>r. Map.empty), nextRef = 1, events = []\<rparr>"

section \<open>Auxiliary facts\<close>

lemma no_fetch_simps [simp]:
  "no_fetch []"
  "no_fetch (ev # evs) = ((case ev of EvFetch req \<Rightarrow> False | _ \<Rightarrow> True) \<and> no_fetch evs)"
  "no_fetch (evs @ evs') = (no_fetch evs \<and> no_fetch evs')"
  by (auto simp add: no_fetch_def)

lemma no_fetch_mem: "no_fetch evs \<Longrightarrow> EvFetch req \<notin> set evs"
  by (auto simp add: no_fetch_def split: event.splits)

lemma user_agent_sentI:
  assumes "\<And>req. EvFetch req \<in> set evs \<Longrightarrow> req_headers req ''User-Agent'' = Some (USER_AGENT e)"
  shows "user_agent_sent e evs"
  using assms by (auto simp add: user_agent_sent_def list_all_iff split: event.splits)

lemma emitted_emit [simp]: "emitted w (emit ev w) = [ev]"
  by (simp add: emitted_def emit_def)

lemma emitted_same [simp]: "emitted w w = []"
  by (simp add: emitted_def)

lemma emitted_append [simp]: "events w' = events w @ evs \<Longrightarrow> emitted w w' = evs"
  by (simp add: emitted_def)

text \<open>
  The session lookups touch no object and allocate nothing; they only make outside calls,
  the first of which asks for the session client.
\<close>

lemma getCookiesFromJar_frame:
  assumes "getCookiesFromJar e w = (w1, res)"
  shows "headerObjs w1 = headerObjs w \<and> bodyObjs w1 = bodyObjs w \<and> nextRef w1 = nextRef w
         \<and> (\<exists>evs. events w1 = events w @ EvGetMwn # evs)"
  using assms
  by (auto simp add: getCookiesFromJar_def emit_def Let_def
      split: sum.splits option.splits if_splits)

lemma getCsrfToken_frame:
  assumes "getCsrfToken e w = (w1, res)"
  shows "headerObjs w1 = headerObjs w \<and> bodyObjs w1 = bodyObjs w \<and> nextRef w1 = nextRef w
         \<and> (\<exists>evs. events w1 = events w @ evs)"
  using assms
  by (auto simp add: getCsrfToken_def emit_def Let_def split: sum.splits)

lemma getCookiesFromJar_events:
  assumes "getCookiesFromJar e w = (w1, res)"
  shows "\<exists>evs. events w1 = events w @ evs \<and> no_fetch evs"
  using assms
  by (auto simp add: getCookiesFromJar_def emit_def Let_def
      split: sum.splits option.splits if_splits)

lemma getCsrfToken_events:
  assumes "getCsrfToken e w = (w1, res)"
  shows "\<exists>evs. events w1 = events w @ evs \<and> no_fetch evs"
  using assms
  by (auto simp add: getCsrfToken_def emit_def Let_def split: sum.splits)

lemma getCookiesFromJar_result: "snd (getCookiesFromJar e w) = snd (getCookiesFromJar e w')"
  by (simp add: getCookiesFromJar_def Let_def split: sum.splits option.splits)

text \<open>
  The three paths of \<open>withAuth\<close>.
\<close>

lemma withAuth_returns_inputs:
  assumes "\<not> needAuth" and "privateWiki (current e) \<noteq> Some True"
  shows "withAuth e w hdrs bdy needAuth = (w, Inr \<lparr>headers = hdrs, body = bdy\<rparr>)"
  using assms by (simp add: withAuth_def)

lemma withAuth_adds_bearer:
  assumes "needAuth \<or> privateWiki (current e) = Some True" and "token (current e) = Value t"
  shows "withAuth e w hdrs bdy needAuth =
           (w\<lparr>headerObjs := (headerObjs w)
                  (nextRef w := (headerObjs w hdrs)(''Authorization'' \<mapsto> ''Bearer '' @ t)),
               nextRef := Suc (nextRef w)\<rparr>,
            Inr \<lparr>headers = nextRef w, body = bdy\<rparr>)"
  using assms by (auto simp add: withAuth_def newHeaders_def)

lemma withAuth_session_path:
  assumes "needAuth \<or> privateWiki (current e) = Some True"
    and "\<forall>t. token (current e) \<noteq> Value t"
    and "withAuth e w hdrs bdy needAuth = (w', res)"
  shows "(\<exists>evs. events w' = events w @ EvGetMwn # evs)
         \<and> (\<forall>r. r < nextRef w \<longrightarrow> headerObjs w' r = headerObjs w r \<and> bodyObjs w' r = bodyObjs w r)
         \<and> nextRef w \<le> nextRef w'
         \<and> (\<forall>rc. res = Inr rc \<longrightarrow>
               (headers rc = hdrs \<or> nextRef w \<le> headers rc \<and> headers rc < nextRef w')
               \<and> (body rc = bdy
                    \<or> (\<exists>br. body rc = Some br \<and> nextRef w \<le> br \<and> br < nextRef w')))"
proof -
  obtain w1 c where c: "getCookiesFromJar e w = (w1, c)"
    by (cases "getCookiesFromJar e w")
  note f1 = getCookiesFromJar_frame [OF c]
  then obtain evs where evs: "events w1 = events w @ EvGetMwn # evs" by blast
  have tok: "token (current e) = Undefined \<or> token (current e) = Null"
    using assms(2) by (cases "token (current e)") auto
  show ?thesis
  proof (cases c)
    case (Inl err)
    with assms c tok f1 show ?thesis
      by (auto simp add: withAuth_def)
  next
    case (Inr found)
    show ?thesis
    proof (cases found)
      case None
      with Inr assms c tok f1 show ?thesis
        by (auto simp add: withAuth_def)
    next
      case (Some cookies)
      show ?thesis
      proof (cases bdy)
        case None
        with Some Inr assms c tok f1 show ?thesis
          by (auto simp add: withAuth_def newHeaders_def)
      next
        case (Some b)
        define w2 where "w2 = snd (newHeaders ((headerObjs w1 hdrs)(''Cookie'' \<mapsto> cookies)) w1)"
        obtain w3 t where t: "getCsrfToken e w2 = (w3, t)"
          by (cases "getCsrfToken e w2")
        note f3 = getCsrfToken_frame [OF t]
        then obtain evs' where evs': "events w3 = events w2 @ evs'" by blast
        have w2: "headerObjs w2 = (headerObjs w)(nextRef w := (headerObjs w hdrs)(''Cookie'' \<mapsto> cookies))"
          "bodyObjs w2 = bodyObjs w" "nextRef w2 = Suc (nextRef w)" "events w2 = events w1"
          using f1 by (simp_all add: w2_def newHeaders_def)
        from Some \<open>found = Some cookies\<close> Inr assms c tok t w2 f3 evs evs' show ?thesis
          by (cases t) (auto simp add: withAuth_def newHeaders_def newBody_def w2_def)
      qed
    qed
  qed
qed

lemma withAuth_preserves_store:
  assumes "withAuth e w hdrs bdy needAuth = (w', res)"
  shows "(\<forall>r. r < nextRef w \<longrightarrow> headerObjs w' r = headerObjs w r \<and> bodyObjs w' r = bodyObjs w r)
         \<and> nextRef w \<le> nextRef w'
         \<and> (\<forall>rc. res = Inr rc \<longrightarrow>
               (headers rc = hdrs \<or> nextRef w \<le> headers rc \<and> headers rc < nextRef w')
               \<and> (body rc = bdy
                    \<or> (\<exists>br. body rc = Some br \<and> nextRef w \<le> br \<and> br < nextRef w')))"
proof (cases "\<not> needAuth \<and> privateWiki (current e) \<noteq> Some True")
  case True
  with assms withAuth_returns_inputs [of needAuth e w hdrs bdy] show ?thesis by auto
next
  case False
  then have auth: "needAuth \<or> privateWiki (current e) = Some True" by auto
  show ?thesis
  proof (cases "\<exists>t. token (current e) = Value t")
    case True
    then obtain t where "token (current e) = Value t" by blast
    from withAuth_adds_bearer [OF auth this, of w hdrs bdy] assms show ?thesis by auto
  next
    case False
    then have "\<forall>t. token (current e) \<noteq> Value t" by simp
    from withAuth_session_path [OF auth this assms] show ?thesis by blast
  qed
qed

text \<open>
  \<open>withAuth\<close> hands nothing to the transport, and apart from \<open>Authorization\<close> and
  \<open>Cookie\<close> the headers it returns have the caller's entries. On the cookie path with
  a body it returns the body extended with the CSRF token.
\<close>

lemma withAuth_effects:
  assumes out: "withAuth e w hdrs bdy needAuth = (w', res)"
  shows "(\<exists>evs. events w' = events w @ evs \<and> no_fetch evs)
         \<and> (\<forall>rc k. res = Inr rc \<and> hdrs < nextRef w \<and> k \<noteq> ''Authorization'' \<and> k \<noteq> ''Cookie''
               \<longrightarrow> headerObjs w' (headers rc) k = headerObjs w hdrs k)"
proof (cases "\<not> needAuth \<and> privateWiki (current e) \<noteq> Some True")
  case True
  with out withAuth_returns_inputs [of needAuth e w hdrs bdy] show ?thesis by auto
next
  case False
  then have auth: "needAuth \<or> privateWiki (current e) = Some True" by auto
  show ?thesis
  proof (cases "\<exists>t. token (current e) = Value t")
    case True
    then obtain t where "token (current e) = Value t" by blast
    from withAuth_adds_bearer [OF auth this, of w hdrs bdy] out show ?thesis by auto
  next
    case False
    then have tok: "token (current e) = Undefined \<or> token (current e) = Null"
      by (cases "token (current e)") auto
    obtain w1 c where c: "getCookiesFromJar e w = (w1, c)"
      by (cases "getCookiesFromJar e w")
    note f1 = getCookiesFromJar_frame [OF c]
    from getCookiesFromJar_events [OF c]
    obtain evs where evs: "events w1 = events w @ evs" "no_fetch evs" by blast
    show ?thesis
    proof (cases c)
      case (Inl err)
      with out auth c tok f1 evs show ?thesis
        by (auto simp add: withAuth_def)
    next
      case (Inr found)
      show ?thesis
      proof (cases found)
        case None
        with Inr out auth c tok f1 evs show ?thesis
          by (auto simp add: withAuth_def)
      next
        case (Some cookies)
        show ?thesis
        proof (cases bdy)
          case None
          with Some Inr out auth c tok f1 evs show ?thesis
            by (auto simp add: withAuth_def newHeaders_def)
        next
          case (Some b)
          define w2 where "w2 = snd (newHeaders ((headerObjs w1 hdrs)(''Cookie'' \<mapsto> cookies)) w1)"
          obtain w3 t where t: "getCsrfToken e w2 = (w3, t)"
            by (cases "getCsrfToken e w2")
          note f3 = getCsrfToken_frame [OF t]
          from getCsrfToken_events [OF t]
          obtain evs' where evs': "events w3 = events w2 @ evs'" "no_fetch evs'" by blast
          have w2: "headerObjs w2 = (headerObjs w)(nextRef w := (headerObjs w hdrs)(''Cookie'' \<mapsto> cookies))"
            "bodyObjs w2 = bodyObjs w" "nextRef w2 = Suc (nextRef w)" "events w2 = events w1"
            using f1 by (simp_all add: w2_def newHeaders_def)
          from Some \<open>found = Some cookies\<close> Inr out auth c tok t w2 f3 evs evs' show ?thesis
            by (cases t) (auto simp add: withAuth_def newHeaders_def newBody_def w2_def)
        qed
      qed
    qed
  qed
qed

lemma withAuth_adds_csrf:
  assumes "needAuth \<or> privateWiki (current e) = Some True"
    and "token (current e) = Null \<or> token (current e) = Undefined"
    and "snd (getCookiesFromJar e w) = Inr (Some cookies)"
    and "getMwn e = Inr mwn" and "mwn_getCsrfToken mwn = Inr tok"
  shows "\<exists>w' hr br. withAuth e w hdrs (Some b) needAuth = (w', Inr \<lparr>headers = hr, body = Some br\<rparr>)
           \<and> bodyObjs w' br = (bodyObjs w b)(''token'' \<mapsto> JString tok)
           \<and> headerObjs w' hr = (headerObjs w hdrs)(''Cookie'' \<mapsto> cookies)"
proof -
  obtain w1 where c: "getCookiesFromJar e w = (w1, Inr (Some cookies))"
    using assms(3) by (cases "getCookiesFromJar e w") simp
  have same: "headerObjs w1 = headerObjs w" "bodyObjs w1 = bodyObjs w" "nextRef w1 = nextRef w"
    using getCookiesFromJar_frame [OF c] by simp_all
  show ?thesis
    using assms(1,2,4,5) c same
    by (auto simp add: withAuth_def newHeaders_def newBody_def getCsrfToken_def emit_def Let_def)
qed

text \<open>
  \<open>fetchCore\<close> either throws while serialising the body, before anything is sent, or
  hands exactly one request to the transport and turns its answer into the result.
\<close>

lemma fetchCore_cases:
  obtains (thrown) err where "fetchCore e w baseUrl opts = (w, Inl err)"
  | (sent) req where
      "fetchCore e w baseUrl opts =
          (emit (EvFetch req) w,
           case fetch e req of
             Inl err \<Rightarrow> Inl err
           | Inr r \<Rightarrow>
               if ok r then Inr r
               else Inl (Error (''HTTP error! status: '' @ string_of_nat (status r)
                                @ '' for URL: '' @ url r @ ''. Response: ''
                                @ (case resp_text r of
                                     Inl err \<Rightarrow> ''Could not read error response body''
                                   | Inr t \<Rightarrow> t))))"
      "req_headers req =
         (case optional_chain opts opt_headers of
            None \<Rightarrow> [''User-Agent'' \<mapsto> USER_AGENT e]
          | Some h \<Rightarrow> [''User-Agent'' \<mapsto> USER_AGENT e] ++ headerObjs w h)"
      "req_method req =
         (case optional_chain opts opt_method of
            None \<Rightarrow> ''GET''
          | Some m \<Rightarrow> if m \<noteq> [] then m else ''GET'')"
      "(optional_chain opts opt_body = None \<and> req_body req = None)
       \<or> (\<exists>b s. optional_chain opts opt_body = Some b
              \<and> JSON_stringify e (bodyObjs w b) = Inr s \<and> req_body req = Some s)"
proof (cases "case optional_chain opts opt_body of
               None \<Rightarrow> Inr None
             | Some b \<Rightarrow>
                 (case JSON_stringify e (bodyObjs w b) of
                    Inl err \<Rightarrow> Inl err
                  | Inr s \<Rightarrow> Inr (Some s))")
  case (Inl err)
  then have "fetchCore e w baseUrl opts = (w, Inl err)"
    by (simp add: fetchCore_def Let_def)
  then show ?thesis by (rule thrown)
next
  case (Inr sent)
  define req where "req =
    \<lparr>req_url =
        (case optional_chain opts opt_params of
           None \<Rightarrow> (if prefix ''//'' baseUrl then ''https:'' @ baseUrl else baseUrl)
         | Some params \<Rightarrow>
             if URLSearchParams_toString e params \<noteq> []
             then (if prefix ''//'' baseUrl then ''https:'' @ baseUrl else baseUrl)
                    @ ''?'' @ URLSearchParams_toString e params
             else (if prefix ''//'' baseUrl then ''https:'' @ baseUrl else baseUrl)),
      req_headers =
        (case optional_chain opts opt_headers of
           None \<Rightarrow> [''User-Agent'' \<mapsto> USER_AGENT e]
         | Some h \<Rightarrow> [''User-Agent'' \<mapsto> USER_AGENT e] ++ headerObjs w h),
      req_method =
        (case optional_chain opts opt_method of
           None \<Rightarrow> ''GET''
         | Some m \<Rightarrow> if m \<noteq> [] then m else ''GET''),
      req_body = sent\<rparr>"
  have run: "fetchCore e w baseUrl opts =
          (emit (EvFetch req) w,
           case fetch e req of
             Inl err \<Rightarrow> Inl err
           | Inr r \<Rightarrow>
               if ok r then Inr r
               else Inl (Error (''HTTP error! status: '' @ string_of_nat (status r)
                                @ '' for URL: '' @ url r @ ''. Response: ''
                                @ (case resp_text r of
                                     Inl err \<Rightarrow> ''Could not read error response body''
                                   | Inr t \<Rightarrow> t))))"
    using Inr unfolding req_def fetchCore_def Let_def
    by (simp split: sum.split)
  have hdrs: "req_headers req =
                (case optional_chain opts opt_headers of
                   None \<Rightarrow> [''User-Agent'' \<mapsto> USER_AGENT e]
                 | Some h \<Rightarrow> [''User-Agent'' \<mapsto> USER_AGENT e] ++ headerObjs w h)"
    by (simp add: req_def)
  have meth: "req_method req =
                (case optional_chain opts opt_method of
                   None \<Rightarrow> ''GET''
                 | Some m \<Rightarrow> if m \<noteq> [] then m else ''GET'')"
    by (simp add: req_def)
  have bdy: "(optional_chain opts opt_body = None \<and> req_body req = None)
               \<or> (\<exists>b s. optional_chain opts opt_body = Some b
                      \<and> JSON_stringify e (bodyObjs w b) = Inr s \<and> req_body req = Some s)"
    using Inr by (auto simp add: req_def split: option.splits sum.splits)
  from run hdrs meth bdy show ?thesis by (rule sent)
qed

lemma fetchCore_sends:
  assumes "fetchCore e w baseUrl opts = (w', res)"
  shows "events w' = events w
         \<or> (\<exists>req. events w' = events w @ [EvFetch req]
              \<and> req_headers req =
                    (case optional_chain opts opt_headers of
                       None \<Rightarrow> [''User-Agent'' \<mapsto> USER_AGENT e]
                     | Some h \<Rightarrow> [''User-Agent'' \<mapsto> USER_AGENT e] ++ headerObjs w h)
              \<and> req_method req =
                    (case optional_chain opts opt_method of
                       None \<Rightarrow> ''GET''
                     | Some m \<Rightarrow> if m \<noteq> [] then m else ''GET'')
              \<and> ((optional_chain opts opt_body = None \<and> req_body req = None)
                   \<or> (\<exists>b s. optional_chain opts opt_body = Some b
                          \<and> JSON_stringify e (bodyObjs w b) = Inr s \<and> req_body req = Some s)))"
proof (cases rule: fetchCore_cases [of e w baseUrl opts])
  case (thrown err)
  with assms show ?thesis by simp
next
  case (sent req)
  from sent(1) assms have "events w' = events w @ [EvFetch req]"
    by (auto simp add: emit_def)
  with sent(2,3,4) show ?thesis by blast
qed

lemma fetchCore_plain:
  "fetchCore e w u None =
     (emit (EvFetch \<lparr>req_url = (if prefix ''//'' u then ''https:'' @ u else u),
                      req_headers = [''User-Agent'' \<mapsto> USER_AGENT e],
                      req_method = ''GET'', req_body = None\<rparr>) w,
      case fetch e \<lparr>req_url = (if prefix ''//'' u then ''https:'' @ u else u),
                     req_headers = [''User-Agent'' \<mapsto> USER_AGENT e],
                     req_method = ''GET'', req_body = None\<rparr> of
        Inl err \<Rightarrow> Inl err
      | Inr r \<Rightarrow>
          if ok r then Inr r
          else Inl (Error (''HTTP error! status: '' @ string_of_nat (status r)
                           @ '' for URL: '' @ url r @ ''. Response: ''
                           @ (case resp_text r of
                                Inl err \<Rightarrow> ''Could not read error response body''
                              | Inr t \<Rightarrow> t))))"
  unfolding fetchCore_def Let_def optional_chain_def
  by (simp split: sum.split)

text \<open>
  The exported request functions: \<open>withAuth\<close> on a fresh headers object, then
  \<open>fetchCore\<close> with the resolved headers and body.
\<close>

lemma auth_then_fetch:
  assumes wa: "withAuth e w0 h bdy needAuth = (w1, Inr rc)"
    and fc: "fetchCore e w1 u opts = (w2, r2)"
    and oh: "optional_chain opts opt_headers = Some (headers rc)"
  shows "\<exists>evs. events w2 = events w0 @ evs
           \<and> (\<forall>req. EvFetch req \<in> set evs \<longrightarrow>
                  req_headers req = [''User-Agent'' \<mapsto> USER_AGENT e] ++ headerObjs w1 (headers rc)
                  \<and> req_method req =
                      (case optional_chain opts opt_method of
                         None \<Rightarrow> ''GET''
                       | Some m \<Rightarrow> if m \<noteq> [] then m else ''GET'')
                  \<and> ((optional_chain opts opt_body = None \<and> req_body req = None)
                       \<or> (\<exists>b s. optional_chain opts opt_body = Some b
                              \<and> JSON_stringify e (bodyObjs w1 b) = Inr s
                              \<and> req_body req = Some s)))"
proof -
  from withAuth_effects [OF wa]
  obtain evs where evs: "events w1 = events w0 @ evs" "no_fetch evs" by blast
  from fetchCore_sends [OF fc]
  show ?thesis
  proof
    assume "events w2 = events w1"
    with evs have "events w2 = events w0 @ evs" by simp
    moreover have "\<forall>req. EvFetch req \<notin> set evs" using evs(2) by (simp add: no_fetch_mem)
    ultimately show ?thesis by blast
  next
    assume "\<exists>req. events w2 = events w1 @ [EvFetch req]
              \<and> req_headers req =
                    (case optional_chain opts opt_headers of
                       None \<Rightarrow> [''User-Agent'' \<mapsto> USER_AGENT e]
                     | Some h \<Rightarrow> [''User-Agent'' \<mapsto> USER_AGENT e] ++ headerObjs w1 h)
              \<and> req_method req =
                    (case optional_chain opts opt_method of
                       None \<Rightarrow> ''GET''
                     | Some m \<Rightarrow> if m \<noteq> [] then m else ''GET'')
              \<and> ((optional_chain opts opt_body = None \<and> req_body req = None)
                   \<or> (\<exists>b s. optional_chain opts opt_body = Some b
                          \<and> JSON_stringify e (bodyObjs w1 b) = Inr s \<and> req_body req = Some s))"
    then obtain req where req: "events w2 = events w1 @ [EvFetch req]"
      "req_headers req =
                    (case optional_chain opts opt_headers of
                       None \<Rightarrow> [''User-Agent'' \<mapsto> USER_AGENT e]
                     | Some h \<Rightarrow> [''User-Agent'' \<mapsto> USER_AGENT e] ++ headerObjs w1 h)"
      "req_method req =
                    (case optional_chain opts opt_method of
                       None \<Rightarrow> ''GET''
                     | Some m \<Rightarrow> if m \<noteq> [] then m else ''GET'')"
      "(optional_chain opts opt_body = None \<and> req_body req = None)
                   \<or> (\<exists>b s. optional_chain opts opt_body = Some b
                          \<and> JSON_stringify e (bodyObjs w1 b) = Inr s \<and> req_body req = Some s)"
      by (elim exE conjE)
    have "events w2 = events w0 @ (evs @ [EvFetch req])" using req(1) evs(1) by simp
    moreover have "\<forall>r. EvFetch r \<in> set (evs @ [EvFetch req]) \<longrightarrow> r = req"
      using evs(2) by (auto dest: no_fetch_mem)
    ultimately show ?thesis using req(2,3,4) oh
      by (intro exI [of _ "evs @ [EvFetch req]"]) (auto simp del: set_append)
  qed
qed

lemma facade_pipeline:
  assumes F: "F = (let (h, w0) = newHeaders hs w
             in case withAuth e w0 h bdy needAuth of
                  (w1, Inl err) \<Rightarrow> (w1, Inl err)
                | (w1, Inr rc) \<Rightarrow>
                    (case fetchCore e w1 u
                            (Some \<lparr>opt_params = p, opt_headers = Some (headers rc),
                                   opt_body = ob rc, opt_method = m\<rparr>) of
                       (w2, Inl err) \<Rightarrow> (w2, Inl err)
                     | (w2, Inr response) \<Rightarrow> (w2, resp_json response)))"
    and hs: "hs ''User-Agent'' = None"
  shows "\<exists>evs. events (fst F) = events w @ evs
           \<and> (\<forall>req. EvFetch req \<in> set evs \<longrightarrow>
                 req_headers req ''User-Agent'' = Some (USER_AGENT e)
                 \<and> req_method req = (case m of None \<Rightarrow> ''GET''
                                      | Some m' \<Rightarrow> if m' \<noteq> [] then m' else ''GET'')
                 \<and> (\<exists>w1 rc. withAuth e (snd (newHeaders hs w)) (nextRef w) bdy needAuth = (w1, Inr rc)
                       \<and> req_headers req = [''User-Agent'' \<mapsto> USER_AGENT e] ++ headerObjs w1 (headers rc)
                       \<and> ((ob rc = None \<and> req_body req = None)
                            \<or> (\<exists>b s. ob rc = Some b \<and> JSON_stringify e (bodyObjs w1 b) = Inr s
                                   \<and> req_body req = Some s))))"
proof -
  define w0 where "w0 = snd (newHeaders hs w)"
  have w0: "newHeaders hs w = (nextRef w, w0)" "events w0 = events w"
    "nextRef w < nextRef w0" "headerObjs w0 (nextRef w) ''User-Agent'' = None"
    using hs by (simp_all add: w0_def newHeaders_def)
  obtain w1 r1 where wa: "withAuth e w0 (nextRef w) bdy needAuth = (w1, r1)"
    by (cases "withAuth e w0 (nextRef w) bdy needAuth")
  show ?thesis
  proof (cases r1)
    case (Inl err)
    with F w0(1) wa have "fst F = w1" by simp
    moreover from withAuth_effects [OF wa]
    obtain evs where "events w1 = events w0 @ evs" "no_fetch evs" by blast
    ultimately show ?thesis using w0(2) by (auto dest: no_fetch_mem)
  next
    case (Inr rc)
    let ?opts = "Some \<lparr>opt_params = p, opt_headers = Some (headers rc),
                        opt_body = ob rc, opt_method = m\<rparr>"
    obtain w2 r2 where fc: "fetchCore e w1 u ?opts = (w2, r2)"
      by (cases "fetchCore e w1 u ?opts")
    from F w0(1) wa Inr fc have fin: "fst F = w2"
      by (cases r2) simp_all
    have wa': "withAuth e w0 (nextRef w) bdy needAuth = (w1, Inr rc)"
      using wa Inr by simp
    have noua: "headerObjs w1 (headers rc) ''User-Agent'' = None"
      using withAuth_effects [OF wa'] w0(3,4) by simp
    have oc: "optional_chain ?opts opt_headers = Some (headers rc)"
      "optional_chain ?opts opt_method = m" "optional_chain ?opts opt_body = ob rc"
      by (simp_all add: optional_chain_def)
    from auth_then_fetch [OF wa' fc oc(1)] obtain evs where
      evs: "events w2 = events w0 @ evs"
        "\<forall>req. EvFetch req \<in> set evs \<longrightarrow>
                  req_headers req = [''User-Agent'' \<mapsto> USER_AGENT e] ++ headerObjs w1 (headers rc)
                  \<and> req_method req =
                      (case optional_chain ?opts opt_method of
                         None \<Rightarrow> ''GET''
                       | Some m \<Rightarrow> if m \<noteq> [] then m else ''GET'')
                  \<and> ((optional_chain ?opts opt_body = None \<and> req_body req = None)
                       \<or> (\<exists>b s. optional_chain ?opts opt_body = Some b
                              \<and> JSON_stringify e (bodyObjs w1 b) = Inr s
                              \<and> req_body req = Some s))"
      by blast
    have "\<forall>req. EvFetch req \<in> set evs \<longrightarrow>
                 req_headers req ''User-Agent'' = Some (USER_AGENT e)
                 \<and> req_method req = (case m of None \<Rightarrow> ''GET''
                                      | Some m' \<Rightarrow> if m' \<noteq> [] then m' else ''GET'')
                 \<and> (\<exists>w1 rc. withAuth e (snd (newHeaders hs w)) (nextRef w) bdy needAuth = (w1, Inr rc)
                       \<and> req_headers req = [''User-Agent'' \<mapsto> USER_AGENT e] ++ headerObjs w1 (headers rc)
                       \<and> ((ob rc = None \<and> req_body req = None)
                            \<or> (\<exists>b s. ob rc = Some b \<and> JSON_stringify e (bodyObjs w1 b) = Inr s
                                   \<and> req_body req = Some s)))"
    proof (intro allI impI)
      fix req assume "EvFetch req \<in> set evs"
      with evs(2) have r: "req_headers req = [''User-Agent'' \<mapsto> USER_AGENT e] ++ headerObjs w1 (headers rc)"
        "req_method req = (case m of None \<Rightarrow> ''GET'' | Some m' \<Rightarrow> if m' \<noteq> [] then m' else ''GET'')"
        "(ob rc = None \<and> req_body req = None)
           \<or> (\<exists>b s. ob rc = Some b \<and> JSON_stringify e (bodyObjs w1 b) = Inr s \<and> req_body req = Some s)"
        unfolding oc by blast+
      have "req_headers req ''User-Agent'' = Some (USER_AGENT e)"
        using r(1) noua by (simp add: map_add_def)
      moreover have "withAuth e (snd (newHeaders hs w)) (nextRef w) bdy needAuth = (w1, Inr rc)"
        using wa' by (simp add: w0_def)
      ultimately show "req_headers req ''User-Agent'' = Some (USER_AGENT e)
                 \<and> req_method req = (case m of None \<Rightarrow> ''GET''
                                      | Some m' \<Rightarrow> if m' \<noteq> [] then m' else ''GET'')
                 \<and> (\<exists>w1 rc. withAuth e (snd (newHeaders hs w)) (nextRef w) bdy needAuth = (w1, Inr rc)
                       \<and> req_headers req = [''User-Agent'' \<mapsto> USER_AGENT e] ++ headerObjs w1 (headers rc)
                       \<and> ((ob rc = None \<and> req_body req = None)
                            \<or> (\<exists>b s. ob rc = Some b \<and> JSON_stringify e (bodyObjs w1 b) = Inr s
                                   \<and> req_body req = Some s)))"
        using r by blast
    qed
    with evs(1) w0(2) fin show ?thesis by auto
  qed
qed

lemma fetchCore_carries_user_agent:
  assumes "\<forall>h. optional_chain opts opt_headers = Some h \<longrightarrow> headerObjs w h ''User-Agent'' = None"
  shows "user_agent_sent e (emitted w (fst (fetchCore e w baseUrl opts)))"
proof (rule user_agent_sentI)
  fix req
  assume sent: "EvFetch req \<in> set (emitted w (fst (fetchCore e w baseUrl opts)))"
  obtain w' res where out: "fetchCore e w baseUrl opts = (w', res)"
    by (cases "fetchCore e w baseUrl opts")
  from fetchCore_sends [OF out] sent out
  have "req_headers req =
          (case optional_chain opts opt_headers of
             None \<Rightarrow> [''User-Agent'' \<mapsto> USER_AGENT e]
           | Some h \<Rightarrow> [''User-Agent'' \<mapsto> USER_AGENT e] ++ headerObjs w h)"
    by auto
  with assms show "req_headers req ''User-Agent'' = Some (USER_AGENT e)"
    by (auto simp add: map_add_def split: option.splits)
qed

lemma facade_carries_user_agent:
  assumes "F = (let (h, w0) = newHeaders hs w
             in case withAuth e w0 h bdy needAuth of
                  (w1, Inl err) \<Rightarrow> (w1, Inl err)
                | (w1, Inr rc) \<Rightarrow>
                    (case fetchCore e w1 u
                            (Some \<lparr>opt_params = p, opt_headers = Some (headers rc),
                                   opt_body = ob rc, opt_method = m\<rparr>) of
                       (w2, Inl err) \<Rightarrow> (w2, Inl err)
                     | (w2, Inr response) \<Rightarrow> (w2, resp_json response)))"
    and "hs ''User-Agent'' = None"
  shows "user_agent_sent e (emitted w (fst F))"
proof -
  from facade_pipeline [OF assms]
  obtain evs where "events (fst F) = events w @ evs"
    "\<forall>req. EvFetch req \<in> set evs \<longrightarrow> req_headers req ''User-Agent'' = Some (USER_AGENT e)"
    by blast
  then show ?thesis by (auto intro: user_agent_sentI)
qed

lemma makeApiRequest_carries_user_agent:
  "user_agent_sent e (emitted w (fst (makeApiRequest e w u params)))"
proof -
  define w0 where "w0 = snd (newHeaders [''Accept'' \<mapsto> ''application/json''] w)"
  let ?opts = "Some \<lparr>opt_params = params, opt_headers = Some (nextRef w),
                      opt_body = None, opt_method = None\<rparr>"
  have w0: "newHeaders [''Accept'' \<mapsto> ''application/json''] w = (nextRef w, w0)"
    "events w0 = events w" "headerObjs w0 (nextRef w) ''User-Agent'' = None"
    by (simp_all add: w0_def newHeaders_def)
  obtain w1 r1 where fc: "fetchCore e w0 u ?opts = (w1, r1)"
    by (cases "fetchCore e w0 u ?opts")
  have fin: "fst (makeApiRequest e w u params) = w1"
    using w0(1) fc by (cases r1) (simp_all add: makeApiRequest_def)
  have "user_agent_sent e (emitted w0 (fst (fetchCore e w0 u ?opts)))"
    by (rule fetchCore_carries_user_agent) (simp add: optional_chain_def w0(3))
  then show ?thesis
    using fin fc w0(2) by (simp add: emitted_def)
qed

lemma best_effort_carries_user_agent:
  "user_agent_sent e (emitted w (fst (fetchPageHtml e w u)))"
  "user_agent_sent e (emitted w (fst (fetchImageAsBase64 e w u)))"
proof -
  have fc: "user_agent_sent e (emitted w (fst (fetchCore e w u None)))"
    by (rule fetchCore_carries_user_agent) (simp add: optional_chain_def)
  have "fst (fetchPageHtml e w u) = fst (fetchCore e w u None)"
    by (simp add: fetchPageHtml_def split: prod.splits sum.splits)
  with fc show "user_agent_sent e (emitted w (fst (fetchPageHtml e w u)))" by simp
  have "fst (fetchImageAsBase64 e w u) = fst (fetchCore e w u None)"
    by (simp add: fetchImageAsBase64_def split: prod.splits sum.splits)
  with fc show "user_agent_sent e (emitted w (fst (fetchImageAsBase64 e w u)))" by simp
qed

lemma facade_sends_csrf:
  assumes F: "F = (let (h, w0) = newHeaders hs w
             in case withAuth e w0 h (Some b) needAuth of
                  (w1, Inl err) \<Rightarrow> (w1, Inl err)
                | (w1, Inr rc) \<Rightarrow>
                    (case fetchCore e w1 u
                            (Some \<lparr>opt_params = p, opt_headers = Some (headers rc),
                                   opt_body = body rc, opt_method = Some m\<rparr>) of
                       (w2, Inl err) \<Rightarrow> (w2, Inl err)
                     | (w2, Inr response) \<Rightarrow> (w2, resp_json response)))"
    and hs: "hs ''User-Agent'' = None"
    and auth: "needAuth \<or> privateWiki (current e) = Some True"
    and tok: "token (current e) = Null \<or> token (current e) = Undefined"
    and cookies: "snd (getCookiesFromJar e w) = Inr (Some cookies)"
    and mwn: "getMwn e = Inr mwn" "mwn_getCsrfToken mwn = Inr tok"
    and m: "m \<noteq> []"
  shows "\<forall>req. EvFetch req \<in> set (emitted w (fst F)) \<longrightarrow>
           req_method req = m \<and> req_headers req ''Cookie'' = Some cookies
           \<and> (\<exists>s. JSON_stringify e ((bodyObjs w b)(''token'' \<mapsto> JString tok)) = Inr s
                  \<and> req_body req = Some s)"
proof (intro allI impI)
  fix req
  assume sent: "EvFetch req \<in> set (emitted w (fst F))"
  define w0 where "w0 = snd (newHeaders hs w)"
  have w0: "bodyObjs w0 = bodyObjs w" by (simp add: w0_def newHeaders_def)
  have "snd (getCookiesFromJar e w0) = Inr (Some cookies)"
    using cookies getCookiesFromJar_result [of e w0 w] by simp
  from withAuth_adds_csrf [OF auth tok this mwn, of "nextRef w" b]
  obtain w' hr br where
    wa: "withAuth e w0 (nextRef w) (Some b) needAuth = (w', Inr \<lparr>headers = hr, body = Some br\<rparr>)"
    and br: "bodyObjs w' br = (bodyObjs w0 b)(''token'' \<mapsto> JString tok)"
    and hr: "headerObjs w' hr = (headerObjs w0 (nextRef w))(''Cookie'' \<mapsto> cookies)"
    by blast
  from facade_pipeline [OF F hs]
  obtain evs where evs: "events (fst F) = events w @ evs"
    and all: "\<forall>req. EvFetch req \<in> set evs \<longrightarrow>
                 req_headers req ''User-Agent'' = Some (USER_AGENT e)
                 \<and> req_method req = (case Some m of None \<Rightarrow> ''GET''
                                      | Some m' \<Rightarrow> if m' \<noteq> [] then m' else ''GET'')
                 \<and> (\<exists>w1 rc. withAuth e (snd (newHeaders hs w)) (nextRef w) (Some b) needAuth = (w1, Inr rc)
                       \<and> req_headers req = [''User-Agent'' \<mapsto> USER_AGENT e] ++ headerObjs w1 (headers rc)
                       \<and> ((body rc = None \<and> req_body req = None)
                            \<or> (\<exists>b s. body rc = Some b \<and> JSON_stringify e (bodyObjs w1 b) = Inr s
                                   \<and> req_body req = Some s)))"
    by blast
  from evs sent have "EvFetch req \<in> set evs" by simp
  with all have meth: "req_method req = m"
    and rest: "\<exists>w1 rc. withAuth e w0 (nextRef w) (Some b) needAuth = (w1, Inr rc)
                       \<and> req_headers req = [''User-Agent'' \<mapsto> USER_AGENT e] ++ headerObjs w1 (headers rc)
                       \<and> ((body rc = None \<and> req_body req = None)
                            \<or> (\<exists>b s. body rc = Some b \<and> JSON_stringify e (bodyObjs w1 b) = Inr s
                                   \<and> req_body req = Some s))"
    using m unfolding w0_def by auto
  from rest wa have hd: "req_headers req = [''User-Agent'' \<mapsto> USER_AGENT e] ++ headerObjs w' hr"
    and bd: "\<exists>s. JSON_stringify e (bodyObjs w' br) = Inr s \<and> req_body req = Some s"
    by auto
  have "req_headers req ''Cookie'' = Some cookies"
    using hd hr by (simp add: map_add_def)
  with meth bd br w0 show "req_method req = m \<and> req_headers req ''Cookie'' = Some cookies
           \<and> (\<exists>s. JSON_stringify e ((bodyObjs w b)(''token'' \<mapsto> JString tok)) = Inr s
                  \<and> req_body req = Some s)"
    by simp
qed

lemma put_sends:
  "list_ex (\<lambda>ev. case ev of EvFetch req \<Rightarrow> True | _ \<Rightarrow> False)
     (emitted example_world
        (fst (makeRestPutRequest (example_env enwiki (logged_in jar_rest_only) offline)
                example_world ''/v1/page/Earth'' 1 True)))"
  by (simp add: makeRestPutRequest_def withAuth_def getCookiesFromJar_def getCsrfToken_def
        fetchCore_def newHeaders_def newBody_def emit_def emitted_def Let_def
        example_env_def enwiki_def logged_in_def jar_rest_only_def offline_def
        example_stringify_def optional_chain_def getRestApiBase_def example_world_def)

section \<open>Credential resolver\<close>

text \<open>
  Claim C1, as stated: with a token in the configuration the resolved headers contain
  \<open>Authorization: Bearer <token>\<close> for all values of \<open>needAuth\<close> and
  \<open>private\<close>. It fails when both are false: the first guard of \<open>withAuth\<close>
  returns the caller's headers as they are, here without any \<open>Authorization\<close> entry,
  although the configuration has the token \<open>abc\<close>.
\<close>

theorem withAuth_bearer_counterexample:
  "token (current (example_env (enwiki\<lparr>token := Value ''abc''\<rparr>) no_session offline)) = Value ''abc''
   \<and> withAuth (example_env (enwiki\<lparr>token := Value ''abc''\<rparr>) no_session offline) example_world 0 None False
       = (example_world, Inr \<lparr>headers = 0, body = None\<rparr>)
   \<and> headerObjs example_world 0 ''Authorization'' = None"
  by (simp add: withAuth_def example_env_def enwiki_def example_world_def)

text \<open>
  Claim C1, amended: when the configuration has a token (neither \<open>null\<close> nor missing)
  and authentication is mandatory (\<open>needAuth\<close> is true or the wiki is private),
  \<open>withAuth\<close> returns a headers object that has the caller's entries and
  \<open>Authorization: Bearer <token>\<close>, and returns the caller's body, unchanged; no
  session lookup is made.
\<close>

theorem withAuth_bearer:
  assumes "token (current e) = Value t"
    and "needAuth \<or> privateWiki (current e) = Some True"
  shows "\<exists>w' hr. withAuth e w hdrs bdy needAuth = (w', Inr \<lparr>headers = hr, body = bdy\<rparr>)
           \<and> headerObjs w' hr = (headerObjs w hdrs)(''Authorization'' \<mapsto> ''Bearer '' @ t)
           \<and> bodyObjs w' = bodyObjs w \<and> events w' = events w"
  using assms by (auto simp add: withAuth_def newHeaders_def)

theorem withAuth_bearer_witness:
  "\<exists>w' hr. withAuth (example_env (enwiki\<lparr>token := Value ''abc''\<rparr>) no_session offline) example_world 0 (Some 1) True
       = (w', Inr \<lparr>headers = hr, body = Some 1\<rparr>)
     \<and> headerObjs w' hr ''Authorization'' = Some ''Bearer abc''
     \<and> headerObjs w' hr ''Accept'' = Some ''application/json''"
  using withAuth_bearer [of "example_env (enwiki\<lparr>token := Value ''abc''\<rparr>) no_session offline" "''abc''" True example_world 0 "Some 1"]
  by (auto simp add: example_env_def enwiki_def example_world_def)

text \<open>
  Claim C2: with \<open>private = false\<close> and \<open>needAuth = false\<close>, \<open>withAuth\<close>
  returns exactly the caller's headers and body, in an unchanged world: nothing is
  added, allocated or looked up.
\<close>

theorem withAuth_anonymous:
  assumes "privateWiki (current e) = Some False" and "\<not> needAuth"
  shows "withAuth e w hdrs bdy needAuth = (w, Inr \<lparr>headers = hdrs, body = bdy\<rparr>)"
  using assms by (simp add: withAuth_def)

theorem withAuth_anonymous_witness:
  "privateWiki (current (example_env enwiki no_session offline)) = Some False
   \<and> withAuth (example_env enwiki no_session offline) example_world 0 (Some 1) False
       = (example_world, Inr \<lparr>headers = 0, body = Some 1\<rparr>)"
  using withAuth_anonymous [of "example_env enwiki no_session offline" False example_world 0 "Some 1"]
  by (simp add: example_env_def enwiki_def)

text \<open>
  Claim C5: under cookie authentication (authentication mandatory, no token in the
  configuration, a cookie string found) and with a body, the resolved body is the caller's
  body extended with the field \<open>token\<close> holding the string that the CSRF-token fetch
  returned, and the resolved headers are the caller's extended with \<open>Cookie\<close>.
  Every request that \<open>makeRestPutRequest\<close> or \<open>makeRestPostRequest\<close> then hands to
  the transport is a \<open>PUT\<close>, respectively a \<open>POST\<close>, that carries the cookie and the
  serialisation of that extended body.
\<close>

theorem withAuth_csrf:
  assumes "needAuth \<or> privateWiki (current e) = Some True"
    and "token (current e) = Null \<or> token (current e) = Undefined"
    and "snd (getCookiesFromJar e w) = Inr (Some cookies)"
    and "getMwn e = Inr mwn" and "mwn_getCsrfToken mwn = Inr tok"
  shows "(\<exists>w' hr br. withAuth e w hdrs (Some b) needAuth = (w', Inr \<lparr>headers = hr, body = Some br\<rparr>)
           \<and> bodyObjs w' br = (bodyObjs w b)(''token'' \<mapsto> JString tok)
           \<and> headerObjs w' hr = (headerObjs w hdrs)(''Cookie'' \<mapsto> cookies))
       \<and> (\<forall>req. EvFetch req \<in> set (emitted w (fst (makeRestPutRequest e w path b needAuth))) \<longrightarrow>
             req_method req = ''PUT'' \<and> req_headers req ''Cookie'' = Some cookies
             \<and> (\<exists>s. JSON_stringify e ((bodyObjs w b)(''token'' \<mapsto> JString tok)) = Inr s
                    \<and> req_body req = Some s))
       \<and> (\<forall>req. EvFetch req \<in> set (emitted w (fst (makeRestPostRequest e w path (Some b) needAuth))) \<longrightarrow>
             req_method req = ''POST'' \<and> req_headers req ''Cookie'' = Some cookies
             \<and> (\<exists>s. JSON_stringify e ((bodyObjs w b)(''token'' \<mapsto> JString tok)) = Inr s
                    \<and> req_body req = Some s))"
proof (intro conjI)
  show "\<exists>w' hr br. withAuth e w hdrs (Some b) needAuth = (w', Inr \<lparr>headers = hr, body = Some br\<rparr>)
           \<and> bodyObjs w' br = (bodyObjs w b)(''token'' \<mapsto> JString tok)
           \<and> headerObjs w' hr = (headerObjs w hdrs)(''Cookie'' \<mapsto> cookies)"
    by (rule withAuth_adds_csrf [OF assms])
next
  show "\<forall>req. EvFetch req \<in> set (emitted w (fst (makeRestPutRequest e w path b needAuth))) \<longrightarrow>
             req_method req = ''PUT'' \<and> req_headers req ''Cookie'' = Some cookies
             \<and> (\<exists>s. JSON_stringify e ((bodyObjs w b)(''token'' \<mapsto> JString tok)) = Inr s
                    \<and> req_body req = Some s)"
    by (rule facade_sends_csrf [OF makeRestPutRequest_def _ assms]) simp_all
next
  show "\<forall>req. EvFetch req \<in> set (emitted w (fst (makeRestPostRequest e w path (Some b) needAuth))) \<longrightarrow>
             req_method req = ''POST'' \<and> req_headers req ''Cookie'' = Some cookies
             \<and> (\<exists>s. JSON_stringify e ((bodyObjs w b)(''token'' \<mapsto> JString tok)) = Inr s
                    \<and> req_body req = Some s)"
    by (rule facade_sends_csrf [OF makeRestPostRequest_def _ assms]) simp_all
qed

theorem withAuth_csrf_witness:
  "(\<exists>w' hr br. withAuth (example_env enwiki (logged_in jar_rest_only) offline) example_world 0 (Some 1) True
       = (w', Inr \<lparr>headers = hr, body = Some br\<rparr>)
     \<and> bodyObjs w' br ''token'' = Some (JString ''csrf-42'')
     \<and> bodyObjs w' br ''source'' = Some (JString ''text'')
     \<and> headerObjs w' hr ''Cookie'' = Some ''session=1'')
   \<and> list_ex (\<lambda>ev. case ev of
                     EvFetch req \<Rightarrow>
                       req_method req = ''PUT'' \<and> req_headers req ''Cookie'' = Some ''session=1''
                       \<and> req_body req = Some ''{token:csrf-42}''
                   | _ \<Rightarrow> False)
        (emitted example_world
           (fst (makeRestPutRequest (example_env enwiki (logged_in jar_rest_only) offline)
                   example_world ''/v1/page/Earth'' 1 True)))"
proof -
  let ?e = "example_env enwiki (logged_in jar_rest_only) offline"
  have c: "snd (getCookiesFromJar ?e example_world) = Inr (Some ''session=1'')"
    by (simp add: getCookiesFromJar_def example_env_def enwiki_def logged_in_def jar_rest_only_def)
  have a: "True \<or> privateWiki (current ?e) = Some True" by simp
  have t: "token (current ?e) = Null \<or> token (current ?e) = Undefined"
    by (simp add: example_env_def enwiki_def)
  have m: "getMwn ?e = Inr \<lparr>cookieJar = Some jar_rest_only, mwn_getCsrfToken = Inr ''csrf-42''\<rparr>"
    by (simp add: example_env_def logged_in_def)
  note inst = withAuth_csrf [OF a t c m, where tok = "''csrf-42''" and hdrs = 0 and b = 1
      and path = "''/v1/page/Earth''", simplified]
  have s: "JSON_stringify ?e ((bodyObjs example_world 1)(''token'' \<mapsto> JString ''csrf-42''))
             = Inr ''{token:csrf-42}''"
    by (simp add: example_env_def example_stringify_def)
  from inst have first: "\<exists>w' hr br. withAuth ?e example_world 0 (Some 1) True
       = (w', Inr \<lparr>headers = hr, body = Some br\<rparr>)
     \<and> bodyObjs w' br ''token'' = Some (JString ''csrf-42'')
     \<and> bodyObjs w' br ''source'' = Some (JString ''text'')
     \<and> headerObjs w' hr ''Cookie'' = Some ''session=1''"
    by (auto simp add: example_world_def)
  from inst s have "\<forall>req. EvFetch req \<in> set (emitted example_world
           (fst (makeRestPutRequest ?e example_world ''/v1/page/Earth'' 1 True))) \<longrightarrow>
             req_method req = ''PUT'' \<and> req_headers req ''Cookie'' = Some ''session=1''
             \<and> req_body req = Some ''{token:csrf-42}''"
    by auto
  with put_sends have "list_ex (\<lambda>ev. case ev of
                     EvFetch req \<Rightarrow>
                       req_method req = ''PUT'' \<and> req_headers req ''Cookie'' = Some ''session=1''
                       \<and> req_body req = Some ''{token:csrf-42}''
                   | _ \<Rightarrow> False)
        (emitted example_world
           (fst (makeRestPutRequest ?e example_world ''/v1/page/Earth'' 1 True)))"
    unfolding list_ex_iff by (auto split: event.splits)
  with first show ?thesis by simp
qed

text \<open>
  Claim C9: every call of \<open>withAuth\<close> shows exactly one of the three modes, and it is
  the one that the triple \<open>(needAuth, private, token)\<close> selects; the caller's headers
  and body, the world and the other collaborators have no part in it. Since
  \<open>selectMode\<close> has one value, the three equivalences make the outcomes exclusive.
\<close>

theorem withAuth_mode:
  "(noAuthOutcome w hdrs bdy (withAuth e w hdrs bdy needAuth)
      \<longleftrightarrow> selectMode needAuth (privateWiki (current e)) (token (current e)) = NoAuth)
   \<and> (bearerOutcome w hdrs bdy (withAuth e w hdrs bdy needAuth)
      \<longleftrightarrow> selectMode needAuth (privateWiki (current e)) (token (current e)) = BearerToken)
   \<and> (cookieOutcome w (withAuth e w hdrs bdy needAuth)
      \<longleftrightarrow> selectMode needAuth (privateWiki (current e)) (token (current e)) = CookieCsrf)"
proof (cases "\<not> needAuth \<and> privateWiki (current e) \<noteq> Some True")
  case True
  then have "selectMode needAuth (privateWiki (current e)) (token (current e)) = NoAuth"
    by (simp add: selectMode_def)
  moreover have "withAuth e w hdrs bdy needAuth = (w, Inr \<lparr>headers = hdrs, body = bdy\<rparr>)"
    using True by (simp add: withAuth_returns_inputs)
  ultimately show ?thesis
    by (simp add: noAuthOutcome_def bearerOutcome_def cookieOutcome_def)
next
  case False
  then have auth: "needAuth \<or> privateWiki (current e) = Some True" by auto
  show ?thesis
  proof (cases "\<exists>t. token (current e) = Value t")
    case True
    then obtain t where t: "token (current e) = Value t" by blast
    have "selectMode needAuth (privateWiki (current e)) (token (current e)) = BearerToken"
      using auth t by (auto simp add: selectMode_def)
    then show ?thesis
      using withAuth_adds_bearer [OF auth t, of w hdrs bdy]
      by (simp add: noAuthOutcome_def bearerOutcome_def cookieOutcome_def emitted_def)
  next
    case False
    then have none: "\<forall>t. token (current e) \<noteq> Value t" by simp
    have mode: "selectMode needAuth (privateWiki (current e)) (token (current e)) = CookieCsrf"
      using auth none by (cases "token (current e)") (auto simp add: selectMode_def)
    obtain w' res where out: "withAuth e w hdrs bdy needAuth = (w', res)"
      by (cases "withAuth e w hdrs bdy needAuth")
    from withAuth_session_path [OF auth none out]
    obtain evs where "events w' = events w @ EvGetMwn # evs" by blast
    then have "emitted w w' = EvGetMwn # evs" by simp
    with mode out show ?thesis
      by (simp add: noAuthOutcome_def bearerOutcome_def cookieOutcome_def)
  qed
qed

theorem withAuth_mode_witness:
  "noAuthOutcome example_world 0 (Some 1)
     (withAuth (example_env (enwiki\<lparr>token := Value ''abc''\<rparr>) no_session offline) example_world 0 (Some 1) False)
   \<and> bearerOutcome example_world 0 (Some 1)
     (withAuth (example_env (enwiki\<lparr>token := Value ''abc''\<rparr>) no_session offline) example_world 0 (Some 1) True)
   \<and> cookieOutcome example_world
     (withAuth (example_env enwiki no_session offline) example_world 0 (Some 1) True)
   \<and> \<not> noAuthOutcome example_world 0 (Some 1)
     (withAuth (example_env enwiki no_session offline) example_world 0 (Some 1) True)"
  using withAuth_mode [of example_world 0 "Some 1" "example_env (enwiki\<lparr>token := Value ''abc''\<rparr>) no_session offline" False]
    withAuth_mode [of example_world 0 "Some 1" "example_env (enwiki\<lparr>token := Value ''abc''\<rparr>) no_session offline" True]
    withAuth_mode [of example_world 0 "Some 1" "example_env enwiki no_session offline" True]
  by (simp add: selectMode_def example_env_def enwiki_def)

text \<open>
  Claim C10: \<open>withAuth\<close> never changes an object that existed before the call, in
  particular not the caller's headers and body, on any path, errors included; each
  reference it returns is either the caller's own or one allocated during the call.
\<close>

theorem withAuth_frame:
  assumes "hdrs < nextRef w" and "\<forall>b. bdy = Some b \<longrightarrow> b < nextRef w"
  shows "headerObjs (fst (withAuth e w hdrs bdy needAuth)) hdrs = headerObjs w hdrs
       \<and> (\<forall>b. bdy = Some b \<longrightarrow>
             bodyObjs (fst (withAuth e w hdrs bdy needAuth)) b = bodyObjs w b)
       \<and> (\<forall>r. r < nextRef w \<longrightarrow>
             headerObjs (fst (withAuth e w hdrs bdy needAuth)) r = headerObjs w r
             \<and> bodyObjs (fst (withAuth e w hdrs bdy needAuth)) r = bodyObjs w r)
       \<and> (\<forall>rc. snd (withAuth e w hdrs bdy needAuth) = Inr rc \<longrightarrow>
             (headers rc = hdrs \<or> nextRef w \<le> headers rc)
             \<and> (body rc = bdy \<or> (\<exists>br. body rc = Some br \<and> nextRef w \<le> br)))"
proof -
  obtain w' res where out: "withAuth e w hdrs bdy needAuth = (w', res)"
    by (cases "withAuth e w hdrs bdy needAuth")
  from withAuth_preserves_store [OF out] assms out show ?thesis
    by auto
qed

theorem withAuth_frame_witness:
  "headerObjs (fst (withAuth (example_env enwiki (logged_in jar_rest_only) offline) example_world 0 (Some 1) True)) 0
     = [''Accept'' \<mapsto> ''application/json'']
   \<and> bodyObjs (fst (withAuth (example_env enwiki (logged_in jar_rest_only) offline) example_world 0 (Some 1) True)) 1
     = [''source'' \<mapsto> JString ''text'']"
  using withAuth_frame [of 0 example_world "Some 1" "example_env enwiki (logged_in jar_rest_only) offline" True]
  by (simp add: example_world_def)

section \<open>REST base and cookie lookup\<close>

text \<open>
  Claim C3, as stated: \<open>getRestApiBase\<close> is \<open>server + restpath\<close> whenever
  \<open>restpath\<close> is set. It fails for a \<open>restpath\<close> set to the empty string, which the
  conditional treats like a missing one: the result is
  \<open>server + scriptpath + "/rest.php"\<close>, not \<open>server\<close>.
\<close>

theorem getRestApiBase_counterexample:
  "restpath (current (example_env (enwiki\<lparr>restpath := Some []\<rparr>) no_session offline)) = Some []
   \<and> getRestApiBase (example_env (enwiki\<lparr>restpath := Some []\<rparr>) no_session offline)
       = ''https://en.wikipedia.org/w/rest.php''
   \<and> server (current (example_env (enwiki\<lparr>restpath := Some []\<rparr>) no_session offline)) @ []
       = ''https://en.wikipedia.org''"
  by (simp add: getRestApiBase_def example_env_def enwiki_def)

text \<open>
  Claim C3, amended: \<open>getRestApiBase\<close> is \<open>server + restpath\<close> when \<open>restpath\<close>
  is a non-empty string, and \<open>server + scriptpath + "/rest.php"\<close> when \<open>restpath\<close>
  is missing or empty.
\<close>

theorem getRestApiBase_rule:
  "(restpath (current e) = Some rp \<and> rp \<noteq> []
      \<longrightarrow> getRestApiBase e = server (current e) @ rp)
   \<and> (restpath (current e) = None \<or> restpath (current e) = Some []
      \<longrightarrow> getRestApiBase e = server (current e) @ scriptpath (current e) @ ''/rest.php'')"
  by (auto simp add: getRestApiBase_def Let_def)

theorem getRestApiBase_rule_witness:
  "getRestApiBase (example_env (enwiki\<lparr>restpath := Some ''/api''\<rparr>) no_session offline)
     = ''https://en.wikipedia.org/api''
   \<and> getRestApiBase (example_env enwiki no_session offline) = ''https://en.wikipedia.org/w/rest.php''"
  using getRestApiBase_rule [of "example_env (enwiki\<lparr>restpath := Some ''/api''\<rparr>) no_session offline" "''/api''"]
    getRestApiBase_rule [of "example_env enwiki no_session offline" "[]"]
  by (simp add: example_env_def enwiki_def)

text \<open>
  Claim C4, as stated: the first query of the cookie lookup uses \<open>server + restpath\<close>
  unless \<open>restpath\<close> is absent. It fails for the empty \<open>restpath\<close>: the jar below has
  a cookie for \<open>server + scriptpath + "/rest.php"\<close> only, so the two queries of the
  claim (both for \<open>server\<close>) would find nothing, yet the lookup makes a single query
  and returns that cookie.
\<close>

theorem getCookiesFromJar_counterexample:
  "getCookiesFromJar (example_env (enwiki\<lparr>restpath := Some []\<rparr>) (logged_in jar_rest_only) offline) example_world
     = (example_world\<lparr>events := [EvGetMwn, EvGetCookieString ''https://en.wikipedia.org/w/rest.php'']\<rparr>,
        Inr (Some ''session=1''))
   \<and> server (enwiki\<lparr>restpath := Some []\<rparr>) @ the (restpath (enwiki\<lparr>restpath := Some []\<rparr>))
       = ''https://en.wikipedia.org''
   \<and> jar_rest_only ''https://en.wikipedia.org'' = []"
  by (simp add: getCookiesFromJar_def example_env_def enwiki_def logged_in_def jar_rest_only_def
        emit_def example_world_def)

text \<open>
  Claim C4, amended: with a session client that has a cookie jar, the lookup first queries
  the jar with the REST base of \<open>getRestApiBase\<close> (\<open>server + restpath\<close> for a
  non-empty \<open>restpath\<close>, otherwise \<open>server + scriptpath + "/rest.php"\<close>); if that
  gives the empty string it queries once more with \<open>server\<close>; if both give the empty
  string it returns no cookies, as a value and not as an error.
\<close>

theorem getCookiesFromJar_lookup:
  assumes "getMwn e = Inr mwn" and "cookieJar mwn = Some jar"
  shows "getCookiesFromJar e w =
           (if jar (getRestApiBase e) \<noteq> [] then
              (w\<lparr>events := events w @ [EvGetMwn, EvGetCookieString (getRestApiBase e)]\<rparr>,
               Inr (Some (jar (getRestApiBase e))))
            else
              (w\<lparr>events := events w @ [EvGetMwn, EvGetCookieString (getRestApiBase e),
                                         EvGetCookieString (server (current e))]\<rparr>,
               Inr (if jar (server (current e)) \<noteq> [] then Some (jar (server (current e)))
                    else None)))"
  using assms
  by (simp add: getCookiesFromJar_def getRestApiBase_def emit_def Let_def split: option.splits)

theorem getCookiesFromJar_lookup_witness:
  "getCookiesFromJar (example_env enwiki (logged_in jar_origin_only) offline) example_world
     = (example_world\<lparr>events := [EvGetMwn, EvGetCookieString ''https://en.wikipedia.org/w/rest.php'',
                                   EvGetCookieString ''https://en.wikipedia.org'']\<rparr>,
        Inr (Some ''session=2''))
   \<and> getCookiesFromJar (example_env enwiki (logged_in (\<lambda>u. [])) offline) example_world
     = (example_world\<lparr>events := [EvGetMwn, EvGetCookieString ''https://en.wikipedia.org/w/rest.php'',
                                   EvGetCookieString ''https://en.wikipedia.org'']\<rparr>,
        Inr None)"
  using getCookiesFromJar_lookup [of "example_env enwiki (logged_in jar_origin_only) offline"
          "\<lparr>cookieJar = Some jar_origin_only, mwn_getCsrfToken = Inr ''csrf-42''\<rparr>" jar_origin_only example_world]
        getCookiesFromJar_lookup [of "example_env enwiki (logged_in (\<lambda>u. [])) offline"
          "\<lparr>cookieJar = Some (\<lambda>u. []), mwn_getCsrfToken = Inr ''csrf-42''\<rparr>" "\<lambda>u. []" example_world]
  by (simp add: example_env_def enwiki_def logged_in_def jar_origin_only_def getRestApiBase_def
        example_world_def)

section \<open>Request builder and best-effort helpers\<close>

text \<open>
  Claim C6, as stated: the error message of a non-2xx response includes the request URL.
  It fails when the response reports another URL than the one requested, as after a
  redirect: the message names \<open>response.url\<close>, and the requested URL does not occur
  in it.
\<close>

theorem fetchCore_http_error_counterexample:
  "fetchCore (example_env enwiki no_session redirected_404) example_world ''https://a.example/x'' None
     = (emit (EvFetch \<lparr>req_url = ''https://a.example/x'',
                        req_headers = [''User-Agent'' \<mapsto> ''mediawiki-mcp-server''],
                        req_method = ''GET'', req_body = None\<rparr>) example_world,
        Inl (Error ''HTTP error! status: 404 for URL: https://b.example/moved. Response: Not Found''))
   \<and> \<not> sublist ''https://a.example/x''
          ''HTTP error! status: 404 for URL: https://b.example/moved. Response: Not Found''"
  by (simp add: fetchCore_def example_env_def redirected_404_def optional_chain_def ok_def
        digit_char_def sublist_code(3) string_of_nat.simps)

text \<open>
  Claim C6, amended: when the transport answers the request that \<open>fetchCore\<close> sent
  with a non-2xx status, \<open>fetchCore\<close> throws one error whose message includes the
  decimal status code, the URL reported by the response, and the response body text, or
  the fixed placeholder when reading the body fails; that request is the only call to the
  transport.
\<close>

theorem fetchCore_http_error:
  assumes "EvFetch req \<in> set (emitted w (fst (fetchCore e w baseUrl opts)))"
    and "fetch e req = Inr r"
    and "status r < 200 \<or> 300 \<le> status r"
    and "errorBody = (case resp_text r of Inl err \<Rightarrow> ''Could not read error response body''
                      | Inr t \<Rightarrow> t)"
    and "msg = ''HTTP error! status: '' @ string_of_nat (status r) @ '' for URL: '' @ url r
                 @ ''. Response: '' @ errorBody"
  shows "snd (fetchCore e w baseUrl opts) = Inl (Error msg)
         \<and> emitted w (fst (fetchCore e w baseUrl opts)) = [EvFetch req]
         \<and> sublist (string_of_nat (status r)) msg \<and> sublist (url r) msg \<and> sublist errorBody msg"
proof -
  have nok: "\<not> ok r" using assms(3) by (auto simp add: ok_def)
  have run: "snd (fetchCore e w baseUrl opts) = Inl (Error msg)
        \<and> emitted w (fst (fetchCore e w baseUrl opts)) = [EvFetch req]"
  proof (cases rule: fetchCore_cases [of e w baseUrl opts])
    case (thrown err)
    with assms(1) show ?thesis by simp
  next
    case (sent req')
    with assms(1) have "req' = req" by simp
    with sent(1) assms(2,4,5) nok show ?thesis by simp
  qed
  have "sublist (string_of_nat (status r)) msg"
    unfolding assms(5) by (rule sublist_appendI)
  moreover have "sublist (url r) msg"
    unfolding assms(5) sublist_def
    by (rule exI [of _ "''HTTP error! status: '' @ string_of_nat (status r) @ '' for URL: ''"],
        rule exI [of _ "''. Response: '' @ errorBody"]) simp
  moreover have "sublist errorBody msg"
    unfolding assms(5) sublist_def
    by (rule exI [of _ "''HTTP error! status: '' @ string_of_nat (status r) @ '' for URL: ''
                        @ url r @ ''. Response: ''"], rule exI [of _ "[]"]) simp
  ultimately show ?thesis using run by simp
qed

theorem fetchCore_http_error_witness:
  "snd (fetchCore (example_env enwiki no_session unreadable_500) example_world
          ''//en.wikipedia.org/w/index.php'' None)
     = Inl (Error ''HTTP error! status: 500 for URL: https://en.wikipedia.org/w/index.php. Response: Could not read error response body'')
   \<and> length (emitted example_world (fst (fetchCore (example_env enwiki no_session unreadable_500)
          example_world ''//en.wikipedia.org/w/index.php'' None))) = 1"
proof -
  let ?req = "\<lparr>req_url = ''https://en.wikipedia.org/w/index.php'',
                req_headers = [''User-Agent'' \<mapsto> ''mediawiki-mcp-server''],
                req_method = ''GET'', req_body = None\<rparr>"
  let ?r = "\<lparr>status = 500, url = ''https://en.wikipedia.org/w/index.php'',
              resp_text = Inl (Error ''socket hang up''),
              resp_json = Inl (Error ''socket hang up''),
              resp_arrayBuffer = Inl (Error ''socket hang up'')\<rparr>"
  have sent: "EvFetch ?req \<in> set (emitted example_world
          (fst (fetchCore (example_env enwiki no_session unreadable_500) example_world
                  ''//en.wikipedia.org/w/index.php'' None)))"
    by (simp add: fetchCore_def example_env_def unreadable_500_def optional_chain_def ok_def)
  have resp: "fetch (example_env enwiki no_session unreadable_500) ?req = Inr ?r"
    by (simp add: example_env_def unreadable_500_def)
  from fetchCore_http_error [OF sent resp _ refl refl]
  show ?thesis by (simp add: string_of_nat.simps digit_char_def)
qed

text \<open>
  Claim C7: whatever the URL and the transport, when the HTTP call throws, when the
  response is not 2xx, or when reading the payload throws, \<open>fetchPageHtml\<close> and
  \<open>fetchImageAsBase64\<close> return \<open>null\<close>; otherwise they return the response text and
  the base64 encoding of the response bytes.
\<close>

theorem best_effort_fetch:
  assumes "req = \<lparr>req_url = (if prefix ''//'' u then ''https:'' @ u else u),
                   req_headers = [''User-Agent'' \<mapsto> USER_AGENT e],
                   req_method = ''GET'', req_body = None\<rparr>"
  shows "(\<forall>err. fetch e req = Inl err \<longrightarrow>
            snd (fetchPageHtml e w u) = None \<and> snd (fetchImageAsBase64 e w u) = None)
       \<and> (\<forall>r. fetch e req = Inr r \<and> \<not> ok r \<longrightarrow>
            snd (fetchPageHtml e w u) = None \<and> snd (fetchImageAsBase64 e w u) = None)
       \<and> (\<forall>r err. fetch e req = Inr r \<and> ok r \<and> resp_text r = Inl err \<longrightarrow>
            snd (fetchPageHtml e w u) = None)
       \<and> (\<forall>r err. fetch e req = Inr r \<and> ok r \<and> resp_arrayBuffer r = Inl err \<longrightarrow>
            snd (fetchImageAsBase64 e w u) = None)
       \<and> (\<forall>r t. fetch e req = Inr r \<and> ok r \<and> resp_text r = Inr t \<longrightarrow>
            snd (fetchPageHtml e w u) = Some t)
       \<and> (\<forall>r bytes. fetch e req = Inr r \<and> ok r \<and> resp_arrayBuffer r = Inr bytes \<longrightarrow>
            snd (fetchImageAsBase64 e w u) = Some (base64 bytes))"
  unfolding assms fetchPageHtml_def fetchImageAsBase64_def fetchCore_plain
  by (auto split: sum.splits)

theorem best_effort_fetch_witness:
  "snd (fetchPageHtml (example_env enwiki no_session offline) example_world ''https://a.example/x'') = None
   \<and> snd (fetchImageAsBase64 (example_env enwiki no_session offline) example_world ''https://a.example/x'') = None
   \<and> snd (fetchPageHtml (example_env enwiki no_session redirected_404) example_world ''https://a.example/x'') = None
   \<and> snd (fetchImageAsBase64 (example_env enwiki no_session unreadable_500) example_world ''https://a.example/x'') = None
   \<and> snd (fetchPageHtml (example_env enwiki no_session ok_page) example_world ''//a.example/x'') = Some ''<p>Hi</p>''
   \<and> snd (fetchImageAsBase64 (example_env enwiki no_session ok_page) example_world ''//a.example/x'') = Some ''TWFu''"
  using best_effort_fetch [OF refl, of "example_env enwiki no_session offline" "''https://a.example/x''" example_world]
    best_effort_fetch [OF refl, of "example_env enwiki no_session redirected_404" "''https://a.example/x''" example_world]
    best_effort_fetch [OF refl, of "example_env enwiki no_session unreadable_500" "''https://a.example/x''" example_world]
    best_effort_fetch [OF refl, of "example_env enwiki no_session ok_page" "''//a.example/x''" example_world]
  by (simp add: example_env_def offline_def redirected_404_def unreadable_500_def ok_page_def
        ok_def base64_char_def)

text \<open>
  Claim C8, as stated: for any caller-supplied headers the request carries
  \<open>User-Agent\<close> set to the fixed string. It fails when the caller's headers have a
  \<open>User-Agent\<close> entry of their own: \<open>Object.assign\<close> copies it over the fixed one.
\<close>

theorem fetchCore_user_agent_counterexample:
  "USER_AGENT (example_env enwiki no_session offline) = ''mediawiki-mcp-server''
   \<and> map (sent_header ''User-Agent'')
         (emitted spoofing_world
            (fst (fetchCore (example_env enwiki no_session offline) spoofing_world
                    ''https://en.wikipedia.org/w/api.php''
                    (Some \<lparr>opt_params = None, opt_headers = Some 0, opt_body = None,
                           opt_method = None\<rparr>))))
       = [Some ''curl/8.0'']
   \<and> \<not> user_agent_sent (example_env enwiki no_session offline)
         (emitted spoofing_world
            (fst (fetchCore (example_env enwiki no_session offline) spoofing_world
                    ''https://en.wikipedia.org/w/api.php''
                    (Some \<lparr>opt_params = None, opt_headers = Some 0, opt_body = None,
                           opt_method = None\<rparr>))))"
  by (simp add: fetchCore_def example_env_def offline_def optional_chain_def spoofing_world_def
        sent_header_def emitted_def emit_def user_agent_sent_def)

text \<open>
  Claim C8, amended: when the caller-supplied headers have no \<open>User-Agent\<close> entry,
  every request that \<open>fetchCore\<close> hands to the transport carries \<open>User-Agent\<close>
  set to the fixed string, for any params, body and method. None of the exported
  functions supplies such an entry, so every request they send carries it, in every
  authentication mode.
\<close>

theorem fetchCore_user_agent:
  "((\<forall>h. optional_chain opts opt_headers = Some h \<longrightarrow> headerObjs w h ''User-Agent'' = None)
      \<longrightarrow> user_agent_sent e (emitted w (fst (fetchCore e w baseUrl opts))))
   \<and> user_agent_sent e (emitted w (fst (makeApiRequest e w baseUrl params)))
   \<and> user_agent_sent e (emitted w (fst (makeRestGetRequest e w path params needAuth)))
   \<and> user_agent_sent e (emitted w (fst (makeRestPutRequest e w path b needAuth)))
   \<and> user_agent_sent e (emitted w (fst (makeRestPostRequest e w path bdy needAuth)))
   \<and> user_agent_sent e (emitted w (fst (fetchPageHtml e w baseUrl)))
   \<and> user_agent_sent e (emitted w (fst (fetchImageAsBase64 e w baseUrl)))"
proof (intro conjI impI)
  assume "\<forall>h. optional_chain opts opt_headers = Some h \<longrightarrow> headerObjs w h ''User-Agent'' = None"
  then show "user_agent_sent e (emitted w (fst (fetchCore e w baseUrl opts)))"
    by (rule fetchCore_carries_user_agent)
next
  show "user_agent_sent e (emitted w (fst (makeApiRequest e w baseUrl params)))"
    by (rule makeApiRequest_carries_user_agent)
next
  show "user_agent_sent e (emitted w (fst (makeRestGetRequest e w path params needAuth)))"
    by (rule facade_carries_user_agent [where ob = "\<lambda>rc. None", OF makeRestGetRequest_def]) simp
next
  show "user_agent_sent e (emitted w (fst (makeRestPutRequest e w path b needAuth)))"
    by (rule facade_carries_user_agent [where ob = body, OF makeRestPutRequest_def]) simp
next
  show "user_agent_sent e (emitted w (fst (makeRestPostRequest e w path bdy needAuth)))"
    by (rule facade_carries_user_agent [where ob = body, OF makeRestPostRequest_def]) simp
next
  show "user_agent_sent e (emitted w (fst (fetchPageHtml e w baseUrl)))"
    by (rule best_effort_carries_user_agent)
next
  show "user_agent_sent e (emitted w (fst (fetchImageAsBase64 e w baseUrl)))"
    by (rule best_effort_carries_user_agent)
qed

theorem fetchCore_user_agent_witness:
  "list_ex (\<lambda>ev. case ev of
                    EvFetch req \<Rightarrow> req_headers req ''User-Agent'' = Some ''mediawiki-mcp-server''
                  | _ \<Rightarrow> False)
     (emitted example_world
        (fst (fetchCore (example_env enwiki no_session offline) example_world
                ''https://en.wikipedia.org/w/api.php''
                (Some \<lparr>opt_params = None, opt_headers = Some 0, opt_body = None,
                       opt_method = Some ''POST''\<rparr>))))
   \<and> list_ex (\<lambda>ev. case ev of
                    EvFetch req \<Rightarrow> req_headers req ''User-Agent'' = Some ''mediawiki-mcp-server''
                  | _ \<Rightarrow> False)
     (emitted example_world
        (fst (makeRestPutRequest (example_env enwiki (logged_in jar_rest_only) offline)
                example_world ''/v1/page/Earth'' 1 True)))"
proof -
  let ?opts = "Some \<lparr>opt_params = None, opt_headers = Some 0, opt_body = None,
                      opt_method = Some ''POST''\<rparr>"
  let ?e = "example_env enwiki no_session offline"
  let ?e' = "example_env enwiki (logged_in jar_rest_only) offline"
  have noua: "\<forall>h. optional_chain ?opts opt_headers = Some h
            \<longrightarrow> headerObjs example_world h ''User-Agent'' = None"
    by (simp add: optional_chain_def example_world_def)
  have sends: "list_ex (\<lambda>ev. case ev of EvFetch req \<Rightarrow> True | _ \<Rightarrow> False)
     (emitted example_world
        (fst (fetchCore ?e example_world ''https://en.wikipedia.org/w/api.php'' ?opts)))"
    by (simp add: fetchCore_def example_env_def offline_def optional_chain_def emit_def
          emitted_def example_world_def)
  from fetchCore_user_agent [of ?opts example_world ?e "''https://en.wikipedia.org/w/api.php''"]
    noua
  have "user_agent_sent ?e (emitted example_world
          (fst (fetchCore ?e example_world ''https://en.wikipedia.org/w/api.php'' ?opts)))"
    by blast
  with sends have one: "list_ex (\<lambda>ev. case ev of
                    EvFetch req \<Rightarrow> req_headers req ''User-Agent'' = Some ''mediawiki-mcp-server''
                  | _ \<Rightarrow> False)
     (emitted example_world
        (fst (fetchCore ?e example_world ''https://en.wikipedia.org/w/api.php'' ?opts)))"
    unfolding list_ex_iff user_agent_sent_def list_all_iff
    by (auto simp add: example_env_def split: event.splits)
  from fetchCore_user_agent [where e = ?e' and w = example_world and path = "''/v1/page/Earth''"
      and b = 1 and needAuth = True]
  have "user_agent_sent ?e' (emitted example_world
          (fst (makeRestPutRequest ?e' example_world ''/v1/page/Earth'' 1 True)))"
    by blast
  with put_sends have two: "list_ex (\<lambda>ev. case ev of
                    EvFetch req \<Rightarrow> req_headers req ''User-Agent'' = Some ''mediawiki-mcp-server''
                  | _ \<Rightarrow> False)
     (emitted example_world
        (fst (makeRestPutRequest ?e' example_world ''/v1/page/Earth'' 1 True)))"
    unfolding list_ex_iff user_agent_sent_def list_all_iff
    by (auto simp add: example_env_def split: event.splits)
  from one two show ?thesis by simp
qed

end
